theory Spec2Isabelle
  imports Complex_Main
begin

section \<open>Data model\<close>

text \<open>
  The ledger of a building owners' association: monthly dues, maintenance events, payments
  and expenses, all read from and written to one stored balance. The handlers of the
  administration dialogues are modelled as functions of the dialogue's state, the form
  input and the store; one administrator is at work, so nothing happens between a
  handler's read and its write.

  The application keeps its records in a document store (Firestore). A collection is
  modelled as the list of its documents \<open>(id, fields)\<close> in the order in which an
  unfiltered read returns them, which is ascending document id. Document ids are the
  store's auto-generated strings; they are abstracted to natural numbers, and the id
  drawn by \<open>addDoc\<close> is a parameter of every creating operation. Timestamps
  (\<open>new Date().toISOString()\<close>) are parameters too, one for each run of a handler.

  Amounts are JavaScript numbers, that is IEEE doubles, idealised as exact reals. What
  the handlers compare, store unchanged or subtract from itself is the same in both; a
  computed sum, difference or ceiling is the same for whole-number amounts below
  \<open>2^53\<close>, and the statements that assert one assume such amounts (\<open>whole\<close>,
  \<open>exactLedger\<close> below). The one non-finite value the ledger code can produce from
  validated input, \<open>Infinity\<close> (a positive cost divided by a floor count of zero), is
  kept as a separate constructor.
\<close>

type_synonym docid = nat
type_synonym timestamp = nat
type_synonym month = string

datatype jsnum = Fin real | PosInf

text \<open>\<open>amount > x\<close>, \<open>x - amount\<close> and \<open>x <= 0\<close> for a finite \<open>amount\<close>.\<close>

fun js_exceeds :: "real \<Rightarrow> jsnum \<Rightarrow> bool" where
  "js_exceeds a (Fin r) = (a > r)"
| "js_exceeds a PosInf = False"

fun js_sub :: "jsnum \<Rightarrow> real \<Rightarrow> jsnum" where
  "js_sub (Fin r) a = Fin (r - a)"
| "js_sub PosInf a = PosInf"

fun js_le0 :: "jsnum \<Rightarrow> bool" where
  "js_le0 (Fin r) = (r \<le> 0)"
| "js_le0 PosInf = False"

text \<open>
  The text of a numeric form field: empty, not parseable (\<open>parseFloat\<close> gives
  \<open>NaN\<close>), or the text of a number.
\<close>

datatype numinput = Blank | NotANumber | Num real

fun parseFloat :: "numinput \<Rightarrow> real option" where
  "parseFloat (Num r) = Some r"
| "parseFloat _ = None"

text \<open>
  The text of a form field is the list of its UTF-16 code units. \<open>trim\<close> strips the
  white space and line terminators of the language from both ends: TAB, LF, VT, FF, CR,
  SPACE, NO-BREAK SPACE, U+1680, U+2000 to U+200A, U+2028, U+2029, U+202F, U+205F, U+3000
  and U+FEFF.
\<close>

type_synonym jsstring = "nat list"

definition is_space :: "nat \<Rightarrow> bool" where
  "is_space c = (c \<in> set [0x09, 0x0A, 0x0B, 0x0C, 0x0D, 0x20, 0xA0, 0x1680,
      0x2000, 0x2001, 0x2002, 0x2003, 0x2004, 0x2005, 0x2006, 0x2007, 0x2008, 0x2009, 0x200A,
      0x2028, 0x2029, 0x202F, 0x205F, 0x3000, 0xFEFF])"

definition trim :: "jsstring \<Rightarrow> jsstring" where
  "trim s = rev (dropWhile is_space (rev (dropWhile is_space s)))"

datatype status = Open | Closed
datatype expense_type = MonthlyExpense | EventExpense
datatype paid_through = Cash | Bank

record Floor =
  floorNumber :: int

record Event =
  eventName_ar :: jsstring
  description :: jsstring
  totalCost :: real
  costPerFloor :: jsnum
  date :: timestamp
  status :: status

record MonthlyPayment =
  mp_floorId :: docid
  mp_month :: month
  mp_amountPaid :: real
  mp_paymentDate :: timestamp
  mp_remainingAmount :: real
  mp_isComplete :: bool

record EventPayment =
  ep_eventId :: docid
  ep_floorId :: docid
  ep_amountPaid :: real
  ep_paymentDate :: timestamp
  ep_remainingAmount :: jsnum
  ep_isComplete :: bool

record Expense =
  ex_type :: expense_type
  ex_eventId :: "docid option"
  ex_description :: jsstring
  ex_amount :: real
  ex_date :: timestamp
  ex_paidThrough :: paid_through

record Balance =
  totalBalance :: real
  lastUpdated :: timestamp

text \<open>
  The \<open>system\<close> collection holds the two singleton documents \<open>balance\<close> and
  \<open>monthlyDuePayment\<close> (its field \<open>required\<close>); \<open>None\<close> is a document
  that does not exist.
\<close>

record Store =
  floors :: "(docid \<times> Floor) list"
  events :: "(docid \<times> Event) list"
  monthlyPayments :: "(docid \<times> MonthlyPayment) list"
  eventPayments :: "(docid \<times> EventPayment) list"
  expenses :: "(docid \<times> Expense) list"
  balance :: "Balance option"
  monthlyDuePayment :: "real option"

datatype error =
    FillAllFields
  | InvalidAmount
  | ExceedsRequired
  | ExceedsBalance
  | SelectEvent
  | PaymentNotFound
  | StoreFailure

section \<open>Store primitives\<close>

definition addDoc :: "docid \<Rightarrow> 'a \<Rightarrow> (docid \<times> 'a) list \<Rightarrow> (docid \<times> 'a) list" where
  "addDoc i d c = insort_key fst (i, d) c"

text \<open>Deleting a document that does not exist succeeds and changes nothing.\<close>

definition deleteDoc :: "docid \<Rightarrow> (docid \<times> 'a) list \<Rightarrow> (docid \<times> 'a) list" where
  "deleteDoc i c = filter (\<lambda>(j, d). j \<noteq> i) c"

definition docExists :: "docid \<Rightarrow> (docid \<times> 'a) list \<Rightarrow> bool" where
  "docExists i c = (i \<in> set (map fst c))"

text \<open>
  \<open>updateDoc\<close> rewrites the named fields of one document and fails when the document
  does not exist; the callers test \<open>docExists\<close> first and raise \<open>StoreFailure\<close>.
\<close>

definition updateDoc :: "docid \<Rightarrow> ('a \<Rightarrow> 'a) \<Rightarrow> (docid \<times> 'a) list \<Rightarrow> (docid \<times> 'a) list" where
  "updateDoc i f c = map (\<lambda>(j, d). if j = i then (j, f d) else (j, d)) c"

text \<open>\<open>balanceDoc.data()?.totalBalance || 0\<close>\<close>

definition currentBalance :: "Store \<Rightarrow> real" where
  "currentBalance s = (case balance s of None \<Rightarrow> 0 | Some b \<Rightarrow> totalBalance b)"

section \<open>Creating a maintenance event (NewMaintenanceModal)\<close>

record NewMaintenanceModal =
  nm_floors :: "(docid \<times> Floor) list"
  nm_eventName :: jsstring
  nm_description :: jsstring
  nm_totalCost :: numinput
  nm_selectedDate :: "timestamp option"

definition loadFloors :: "Store \<Rightarrow> (docid \<times> Floor) list" where
  "loadFloors s = sort_key (\<lambda>(i, f). floorNumber f) (floors s)"

definition calculateCostPerFloor :: "(docid \<times> Floor) list \<Rightarrow> real \<Rightarrow> real" where
  "calculateCostPerFloor fls cost =
     (if length fls = 0 then 0 else of_int \<lceil>cost / real (length fls)\<rceil>)"

definition nm_handleDetailsSubmit :: "NewMaintenanceModal \<Rightarrow> error option" where
  "nm_handleDetailsSubmit ui =
     (if trim (nm_eventName ui) = [] \<or> trim (nm_description ui) = []
         \<or> nm_totalCost ui = Blank \<or> nm_selectedDate ui = None
      then Some FillAllFields
      else case parseFloat (nm_totalCost ui) of
             None \<Rightarrow> Some InvalidAmount
           | Some cost \<Rightarrow> if cost \<le> 0 then Some InvalidAmount else None)"

text \<open>
  \<open>handleCreateEvent\<close> runs from the review step, which is entered only through
  \<open>handleDetailsSubmit\<close>; \<open>cost\<close> and \<open>day\<close> are the parsed cost and the chosen
  date of the form that passed it.
\<close>

definition handleCreateEvent ::
  "NewMaintenanceModal \<Rightarrow> real \<Rightarrow> timestamp \<Rightarrow> docid \<Rightarrow> Store \<Rightarrow> Store" where
  "handleCreateEvent ui cost day newId s =
     (let cpf = calculateCostPerFloor (nm_floors ui) cost
      in s\<lparr>events := addDoc newId
             \<lparr>eventName_ar = trim (nm_eventName ui), description = trim (nm_description ui),
              totalCost = cost, costPerFloor = Fin cpf, date = day, status = Open\<rparr>
             (events s)\<rparr>)"

text \<open>The whole dialogue: open (load the floors), fill the form, review, create.\<close>

definition createEvent ::
  "jsstring \<Rightarrow> jsstring \<Rightarrow> numinput \<Rightarrow> timestamp option \<Rightarrow> docid \<Rightarrow> Store \<Rightarrow> error option \<times> Store" where
  "createEvent name descr cost day newId s =
     (let ui = \<lparr>nm_floors = loadFloors s, nm_eventName = name, nm_description = descr,
                nm_totalCost = cost, nm_selectedDate = day\<rparr>
      in case nm_handleDetailsSubmit ui of
           Some e \<Rightarrow> (Some e, s)
         | None \<Rightarrow>
            (case (parseFloat cost, day) of
               (Some c, Some d) \<Rightarrow> (None, handleCreateEvent ui c d newId s)
             | _ \<Rightarrow> (Some InvalidAmount, s)))"

section \<open>Editing and deleting a maintenance event (ManageMaintenanceModal)\<close>


text \<open>
  \<open>Math.ceil(totalCost / floorsCount)\<close> for a validated, positive \<open>totalCost\<close>:
  with no floors the quotient is \<open>Infinity\<close>. Here and in
  \<open>calculateCostPerFloor\<close> the ceiling is that of the exact quotient, which is what
  the code computes for a whole-number cost below \<open>2^53\<close>.
\<close>

definition ceilPerFloor :: "real \<Rightarrow> nat \<Rightarrow> jsnum" where
  "ceilPerFloor cost n = (if n = 0 then PosInf else Fin (of_int \<lceil>cost / real n\<rceil>))"


text \<open>
  \<open>deleteEvent\<close>: the two queries \<open>where("eventId", "==", id)\<close>, the two
  \<open>reduce\<close> sums, the balance read, the deletions by document reference, the deletion
  of the event and last the balance update, which fails when the balance document does
  not exist (the deletions have happened by then). The sums and the new balance are exact
  here; the code's are the same on an exact store.
\<close>

definition deleteEvent :: "docid option \<Rightarrow> timestamp \<Rightarrow> Store \<Rightarrow> error option \<times> Store" where
  "deleteEvent deleteConfirmEvent now s =
     (case deleteConfirmEvent of
        None \<Rightarrow> (None, s)
      | Some eid \<Rightarrow>
         let eventPaymentsSnapshot = filter (\<lambda>(i, p). ep_eventId p = eid) (eventPayments s);
             totalPaymentsAmount =
               foldl (\<lambda>acc (i, p). acc + ep_amountPaid p) 0 eventPaymentsSnapshot;
             eventExpensesSnapshot = filter (\<lambda>(i, x). ex_eventId x = Some eid) (expenses s);
             totalExpensesAmount =
               foldl (\<lambda>acc (i, x). acc + ex_amount x) 0 eventExpensesSnapshot;
             newBalance = currentBalance s - totalPaymentsAmount + totalExpensesAmount;
             s1 = s\<lparr>eventPayments := fold deleteDoc (map fst eventPaymentsSnapshot) (eventPayments s),
                    expenses := fold deleteDoc (map fst eventExpensesSnapshot) (expenses s)\<rparr>;
             s2 = s1\<lparr>events := deleteDoc eid (events s1)\<rparr>
         in case balance s2 of
              None \<Rightarrow> (Some StoreFailure, s2)
            | Some b \<Rightarrow> (None, s2\<lparr>balance := Some \<lparr>totalBalance = newBalance, lastUpdated = now\<rparr>\<rparr>))"

section \<open>Recording a monthly payment (MonthlyPaymentModal)\<close>

text \<open>
  \<open>mm_selectedDate\<close> is the month of the chosen date as the handler formats it
  (\<open>YYYY-MM\<close>). \<open>mm_monthlyDueAmount\<close> is the \<open>required\<close> field read when the
  dialogue opens; it stays 0 when the configuration document does not exist.
\<close>

record MonthlyPaymentModal =
  mm_selectedFloor :: "docid option"
  mm_paymentAmount :: numinput
  mm_selectedDate :: "month option"
  mm_monthlyDueAmount :: real

definition loadFloorsAndConfig :: "Store \<Rightarrow> real" where
  "loadFloorsAndConfig s = (case monthlyDuePayment s of None \<Rightarrow> 0 | Some r \<Rightarrow> r)"

definition monthly_handlePaymentSubmit ::
  "MonthlyPaymentModal \<Rightarrow> timestamp \<Rightarrow> docid \<Rightarrow> Store \<Rightarrow> error option \<times> Store" where
  "monthly_handlePaymentSubmit ui now newId s =
     (case (mm_selectedFloor ui, mm_selectedDate ui) of
        (Some fl, Some mo) \<Rightarrow>
          if mm_paymentAmount ui = Blank then (Some FillAllFields, s)
          else (case parseFloat (mm_paymentAmount ui) of
                  None \<Rightarrow> (Some InvalidAmount, s)
                | Some amount \<Rightarrow>
                   if amount \<le> 0 then (Some InvalidAmount, s)
                   else if amount > mm_monthlyDueAmount ui then (Some ExceedsRequired, s)
                   else
                     let remainingAmount = mm_monthlyDueAmount ui - amount;
                         isComplete = (remainingAmount \<le> 0);
                         s1 = s\<lparr>monthlyPayments := addDoc newId
                                \<lparr>mp_floorId = fl, mp_month = mo, mp_amountPaid = amount,
                                 mp_paymentDate = now, mp_remainingAmount = remainingAmount,
                                 mp_isComplete = isComplete\<rparr>
                                (monthlyPayments s)\<rparr>
                     in (None,
                         case balance s1 of
                           None \<Rightarrow> s1
                         | Some b \<Rightarrow> s1\<lparr>balance := Some
                              \<lparr>totalBalance = totalBalance b + amount, lastUpdated = now\<rparr>\<rparr>))
      | _ \<Rightarrow> (Some FillAllFields, s))"

text \<open>The whole dialogue: open (read the configuration), choose, submit.\<close>

definition recordMonthlyPayment ::
  "docid option \<Rightarrow> month option \<Rightarrow> numinput \<Rightarrow> timestamp \<Rightarrow> docid \<Rightarrow> Store
     \<Rightarrow> error option \<times> Store" where
  "recordMonthlyPayment fl mo amt now newId s =
     monthly_handlePaymentSubmit
       \<lparr>mm_selectedFloor = fl, mm_paymentAmount = amt, mm_selectedDate = mo,
        mm_monthlyDueAmount = loadFloorsAndConfig s\<rparr> now newId s"

section \<open>Recording an event payment (MaintenancePaymentModal)\<close>

record MaintenancePaymentModal =
  pm_events :: "(docid \<times> Event) list"
  pm_existingPayments :: "EventPayment list"
  pm_selectedEvent :: "docid option"
  pm_selectedFloor :: "docid option"
  pm_paymentAmount :: numinput

text \<open>
  \<open>loadData\<close> keeps the open events and the field values of every event payment, in
  the order of the read.
\<close>

definition pm_loadData :: "docid option \<Rightarrow> docid option \<Rightarrow> numinput \<Rightarrow> Store \<Rightarrow> MaintenancePaymentModal" where
  "pm_loadData ev fl amt s =
     \<lparr>pm_events = filter (\<lambda>(i, e). status e = Open) (events s),
      pm_existingPayments = map snd (eventPayments s),
      pm_selectedEvent = ev, pm_selectedFloor = fl, pm_paymentAmount = amt\<rparr>"

definition getRequiredAmount :: "MaintenancePaymentModal \<Rightarrow> docid \<Rightarrow> docid \<Rightarrow> jsnum" where
  "getRequiredAmount ui eventId floorId =
     (case find (\<lambda>(i, e). i = eventId) (pm_events ui) of
        None \<Rightarrow> Fin 0
      | Some (i, e) \<Rightarrow> costPerFloor e)"

definition getRemainingAmount :: "MaintenancePaymentModal \<Rightarrow> docid \<Rightarrow> docid \<Rightarrow> jsnum" where
  "getRemainingAmount ui eventId floorId =
     (let requiredAmount = getRequiredAmount ui eventId floorId
      in case find (\<lambda>p. ep_eventId p = eventId \<and> ep_floorId p = floorId)
                   (pm_existingPayments ui) of
           Some existingPayment \<Rightarrow> ep_remainingAmount existingPayment
         | None \<Rightarrow> requiredAmount)"

definition event_handlePaymentSubmit ::
  "MaintenancePaymentModal \<Rightarrow> timestamp \<Rightarrow> docid \<Rightarrow> Store \<Rightarrow> error option \<times> Store" where
  "event_handlePaymentSubmit ui now newId s =
     (case (pm_selectedEvent ui, pm_selectedFloor ui) of
        (Some ev, Some fl) \<Rightarrow>
          if pm_paymentAmount ui = Blank then (Some FillAllFields, s)
          else (case parseFloat (pm_paymentAmount ui) of
                  None \<Rightarrow> (Some InvalidAmount, s)
                | Some amount \<Rightarrow>
                   if amount \<le> 0 then (Some InvalidAmount, s)
                   else
                     let remainingAmount = getRemainingAmount ui ev fl
                     in if js_exceeds amount remainingAmount then (Some ExceedsRequired, s)
                        else
                          let newRemainingAmount = js_sub remainingAmount amount;
                              isComplete = js_le0 newRemainingAmount;
                              s1 = s\<lparr>eventPayments := addDoc newId
                                     \<lparr>ep_eventId = ev, ep_floorId = fl, ep_amountPaid = amount,
                                      ep_paymentDate = now,
                                      ep_remainingAmount = newRemainingAmount,
                                      ep_isComplete = isComplete\<rparr>
                                     (eventPayments s)\<rparr>
                          in (None,
                              case balance s1 of
                                None \<Rightarrow> s1
                              | Some b \<Rightarrow> s1\<lparr>balance := Some
                                   \<lparr>totalBalance = totalBalance b + amount, lastUpdated = now\<rparr>\<rparr>))
      | _ \<Rightarrow> (Some FillAllFields, s))"

text \<open>The whole dialogue: open (load events and payments), choose, submit.\<close>

definition recordEventPayment ::
  "docid option \<Rightarrow> docid option \<Rightarrow> numinput \<Rightarrow> timestamp \<Rightarrow> docid \<Rightarrow> Store
     \<Rightarrow> error option \<times> Store" where
  "recordEventPayment ev fl amt now newId s =
     event_handlePaymentSubmit (pm_loadData ev fl amt s) now newId s"

section \<open>Recording an expense (ExpenseModal)\<close>

text \<open>\<open>xm_totalBalance\<close> is \<open>financialData.totalBalance\<close>, read when the dialogue opens.\<close>

record ExpenseModal =
  xm_totalBalance :: real
  xm_expenseType :: expense_type
  xm_selectedEvent :: "docid option"
  xm_description :: jsstring
  xm_amount :: numinput
  xm_paymentMethod :: paid_through

definition xm_handleDetailsSubmit :: "ExpenseModal \<Rightarrow> error option" where
  "xm_handleDetailsSubmit ui =
     (if trim (xm_description ui) = [] \<or> xm_amount ui = Blank then Some FillAllFields
      else if xm_expenseType ui = EventExpense \<and> xm_selectedEvent ui = None then Some SelectEvent
      else case parseFloat (xm_amount ui) of
             None \<Rightarrow> Some InvalidAmount
           | Some amountNum \<Rightarrow>
              if amountNum \<le> 0 then Some InvalidAmount
              else if amountNum > xm_totalBalance ui then Some ExceedsBalance
              else None)"

text \<open>
  \<open>handleExpenseSubmit\<close> runs from the review step, entered only through
  \<open>handleDetailsSubmit\<close>; \<open>amountNum\<close> is the parsed amount of the form that passed it.
\<close>

definition handleExpenseSubmit ::
  "ExpenseModal \<Rightarrow> real \<Rightarrow> timestamp \<Rightarrow> docid \<Rightarrow> Store \<Rightarrow> Store" where
  "handleExpenseSubmit ui amountNum now newId s =
     (let s1 = s\<lparr>expenses := addDoc newId
                 \<lparr>ex_type = xm_expenseType ui,
                  ex_eventId = (if xm_expenseType ui = EventExpense then xm_selectedEvent ui else None),
                  ex_description = trim (xm_description ui), ex_amount = amountNum,
                  ex_date = now, ex_paidThrough = xm_paymentMethod ui\<rparr>
                 (expenses s)\<rparr>
      in case balance s1 of
           None \<Rightarrow> s1
         | Some b \<Rightarrow> s1\<lparr>balance := Some
              \<lparr>totalBalance = totalBalance b - amountNum, lastUpdated = now\<rparr>\<rparr>)"

text \<open>The whole dialogue: open (read the balance), fill the form, review, submit.\<close>

definition createExpense ::
  "expense_type \<Rightarrow> docid option \<Rightarrow> jsstring \<Rightarrow> numinput \<Rightarrow> paid_through \<Rightarrow> timestamp \<Rightarrow> docid
     \<Rightarrow> Store \<Rightarrow> error option \<times> Store" where
  "createExpense ty ev descr amt paidVia now newId s =
     (let ui = \<lparr>xm_totalBalance = currentBalance s, xm_expenseType = ty, xm_selectedEvent = ev,
                xm_description = descr, xm_amount = amt, xm_paymentMethod = paidVia\<rparr>
      in case xm_handleDetailsSubmit ui of
           Some e \<Rightarrow> (Some e, s)
         | None \<Rightarrow>
            (case parseFloat amt of
               Some amountNum \<Rightarrow> (None, handleExpenseSubmit ui amountNum now newId s)
             | None \<Rightarrow> (Some InvalidAmount, s)))"

section \<open>Editing and deleting payments (ManagePaymentsModal)\<close>

text \<open>
  The dialogue lists the payments of both collections. \<open>p_type\<close> stands for the
  fields \<open>type\<close> and \<open>collectionName\<close>, which always agree. The month picker of
  the edit form is kept as the month it formats to.
\<close>

datatype payment_type = MonthlyType | EventType

record Payment =
  p_id :: docid
  p_type :: payment_type
  p_floorId :: docid
  p_amountPaid :: real
  p_originalAmount :: real
  p_paymentDate :: timestamp
  p_month :: "month option"
  p_eventId :: "docid option"

record PaymentEditForm =
  pf_amountPaid :: numinput
  pf_paymentMonth :: "month option"

record ManagePaymentsModal =
  payments :: "Payment list"
  editingPaymentId :: "docid option"
  editFormData :: PaymentEditForm
  deleteConfirmPayment :: "Payment option"

datatype edit_field = AmountPaidField numinput | PaymentMonthField "month option"

text \<open>Both collections, newest payment date first (the sort is stable).\<close>

definition loadPayments :: "Store \<Rightarrow> Payment list" where
  "loadPayments s =
     (let monthly = map (\<lambda>(i, d).
            \<lparr>p_id = i, p_type = MonthlyType, p_floorId = mp_floorId d,
             p_amountPaid = mp_amountPaid d, p_originalAmount = mp_amountPaid d,
             p_paymentDate = mp_paymentDate d, p_month = Some (mp_month d),
             p_eventId = None\<rparr>) (monthlyPayments s);
          event = map (\<lambda>(i, d).
            \<lparr>p_id = i, p_type = EventType, p_floorId = ep_floorId d,
             p_amountPaid = ep_amountPaid d, p_originalAmount = ep_amountPaid d,
             p_paymentDate = ep_paymentDate d, p_month = None,
             p_eventId = Some (ep_eventId d)\<rparr>) (eventPayments s)
      in sort_key (\<lambda>p. - int (p_paymentDate p)) (monthly @ event))"

definition openPayments :: "Store \<Rightarrow> ManagePaymentsModal" where
  "openPayments s =
     \<lparr>payments = loadPayments s, editingPaymentId = None,
      editFormData = \<lparr>pf_amountPaid = Blank, pf_paymentMonth = None\<rparr>,
      deleteConfirmPayment = None\<rparr>"

definition startEditing :: "Payment \<Rightarrow> ManagePaymentsModal \<Rightarrow> ManagePaymentsModal" where
  "startEditing payment ui =
     ui\<lparr>editingPaymentId := Some (p_id payment),
        editFormData :=
          \<lparr>pf_amountPaid = Num (p_amountPaid payment),
           pf_paymentMonth =
             (case p_month payment of
                Some m \<Rightarrow> if p_type payment = MonthlyType \<and> m \<noteq> [] then Some m else None
              | None \<Rightarrow> None)\<rparr>\<rparr>"

definition cancelEditing :: "ManagePaymentsModal \<Rightarrow> ManagePaymentsModal" where
  "cancelEditing ui =
     ui\<lparr>editingPaymentId := None,
        editFormData := \<lparr>pf_amountPaid = Blank, pf_paymentMonth = None\<rparr>\<rparr>"

fun handleEditChange :: "edit_field \<Rightarrow> ManagePaymentsModal \<Rightarrow> ManagePaymentsModal" where
  "handleEditChange (AmountPaidField v) ui =
     ui\<lparr>editFormData := (editFormData ui)\<lparr>pf_amountPaid := v\<rparr>\<rparr>"
| "handleEditChange (PaymentMonthField v) ui =
     ui\<lparr>editFormData := (editFormData ui)\<lparr>pf_paymentMonth := v\<rparr>\<rparr>"

definition confirmDelete :: "Payment \<Rightarrow> ManagePaymentsModal \<Rightarrow> ManagePaymentsModal" where
  "confirmDelete payment ui = ui\<lparr>deleteConfirmPayment := Some payment\<rparr>"

definition cancelDelete :: "ManagePaymentsModal \<Rightarrow> ManagePaymentsModal" where
  "cancelDelete ui = ui\<lparr>deleteConfirmPayment := None\<rparr>"

text \<open>
  \<open>savePayment\<close> writes the payment and the balance in one batch: when either document
  does not exist the batch fails and nothing is written. On success the list is read
  again; \<open>deleteConfirmPayment\<close> is left as it is.
\<close>

definition savePayment ::
  "ManagePaymentsModal \<Rightarrow> Store \<Rightarrow> error option \<times> ManagePaymentsModal \<times> Store" where
  "savePayment ui s =
     (case editingPaymentId ui of
        None \<Rightarrow> (None, ui, s)
      | Some pid \<Rightarrow>
         (case parseFloat (pf_amountPaid (editFormData ui)) of
            None \<Rightarrow> (Some InvalidAmount, ui, s)
          | Some amount \<Rightarrow>
             if amount \<le> 0 then (Some InvalidAmount, ui, s)
             else
               (case find (\<lambda>p. p_id p = pid) (payments ui) of
                  None \<Rightarrow> (Some PaymentNotFound, ui, s)
                | Some paymentToEdit \<Rightarrow>
                   let balanceChange = amount - p_originalAmount paymentToEdit;
                       newBalance = currentBalance s + balanceChange;
                       s1 = (case p_type paymentToEdit of
                               MonthlyType \<Rightarrow>
                                 s\<lparr>monthlyPayments := updateDoc pid
                                     (\<lambda>d. case pf_paymentMonth (editFormData ui) of
                                             Some m \<Rightarrow> d\<lparr>mp_amountPaid := amount, mp_month := m\<rparr>
                                           | None \<Rightarrow> d\<lparr>mp_amountPaid := amount\<rparr>)
                                     (monthlyPayments s)\<rparr>
                             | EventType \<Rightarrow>
                                 s\<lparr>eventPayments := updateDoc pid
                                     (\<lambda>d. d\<lparr>ep_amountPaid := amount\<rparr>) (eventPayments s)\<rparr>);
                       paymentExists = (case p_type paymentToEdit of
                               MonthlyType \<Rightarrow> docExists pid (monthlyPayments s)
                             | EventType \<Rightarrow> docExists pid (eventPayments s))
                   in case balance s of
                        None \<Rightarrow> (Some StoreFailure, ui, s)
                      | Some b \<Rightarrow>
                         if \<not> paymentExists then (Some StoreFailure, ui, s)
                         else
                           let s2 = s1\<lparr>balance := Some (b\<lparr>totalBalance := newBalance\<rparr>)\<rparr>
                           in (None, ui\<lparr>editingPaymentId := None, payments := loadPayments s2\<rparr>, s2))))"

text \<open>
  \<open>deletePayment\<close> deletes the document named by \<open>deleteConfirmPayment\<close> and takes
  the \<open>amountPaid\<close> held by that object off the balance, again in one batch.
\<close>

definition deletePayment ::
  "ManagePaymentsModal \<Rightarrow> Store \<Rightarrow> error option \<times> ManagePaymentsModal \<times> Store" where
  "deletePayment ui s =
     (case deleteConfirmPayment ui of
        None \<Rightarrow> (None, ui, s)
      | Some p \<Rightarrow>
         let s1 = (case p_type p of
                     MonthlyType \<Rightarrow> s\<lparr>monthlyPayments := deleteDoc (p_id p) (monthlyPayments s)\<rparr>
                   | EventType \<Rightarrow> s\<lparr>eventPayments := deleteDoc (p_id p) (eventPayments s)\<rparr>);
             newBalance = currentBalance s - p_amountPaid p
         in case balance s of
              None \<Rightarrow> (Some StoreFailure, ui, s)
            | Some b \<Rightarrow>
               let s2 = s1\<lparr>balance := Some (b\<lparr>totalBalance := newBalance\<rparr>)\<rparr>
               in (None, ui\<lparr>deleteConfirmPayment := None, payments := loadPayments s2\<rparr>, s2))"

section \<open>Ledger totals\<close>

text \<open>
  The sum of \<open>amountPaid\<close> over all live payment records minus the sum of
  \<open>amount\<close> over all live expense records.
\<close>

definition ledgerTotal :: "Store \<Rightarrow> real" where
  "ledgerTotal s =
     sum_list (map (\<lambda>(i, d). mp_amountPaid d) (monthlyPayments s))
     + sum_list (map (\<lambda>(i, d). ep_amountPaid d) (eventPayments s))
     - sum_list (map (\<lambda>(i, d). ex_amount d) (expenses s))"

section \<open>Well-formedness and the quantities the claims speak about\<close>

text \<open>Document ids are unique within a collection.\<close>

definition uniqueIds :: "(docid \<times> 'a) list \<Rightarrow> bool" where
  "uniqueIds c = distinct (map fst c)"


text \<open>
  Where the exact arithmetic of the model is the arithmetic of the code. The handlers
  compute in IEEE doubles. A whole number below \<open>2^53\<close> in magnitude is a double; a sum
  or difference of two such numbers that is again below \<open>2^53\<close> is computed exactly,
  and for a whole-number cost below \<open>2^53\<close> \<open>Math.ceil\<close> of the double quotient by a
  floor count is the ceiling of the exact quotient. Statements that assert a computed sum,
  difference or ceiling assume such amounts.
\<close>

definition whole :: "real \<Rightarrow> bool" where
  "whole x = (x \<in> \<int> \<and> \<bar>x\<bar> < 2 ^ 53)"

fun wholeJs :: "jsnum \<Rightarrow> bool" where
  "wholeJs (Fin r) = whole r"
| "wholeJs PosInf = True"

text \<open>
  A store whose balance and amounts are whole numbers, small enough for every sum and
  difference the handlers form over them to stay below \<open>2^53\<close>.
\<close>

definition exactLedger :: "Store \<Rightarrow> bool" where
  "exactLedger s =
     (currentBalance s \<in> \<int>
      \<and> list_all (\<lambda>(i, d). mp_amountPaid d \<in> \<int>) (monthlyPayments s)
      \<and> list_all (\<lambda>(i, d). ep_amountPaid d \<in> \<int>) (eventPayments s)
      \<and> list_all (\<lambda>(i, d). ex_amount d \<in> \<int>) (expenses s)
      \<and> \<bar>currentBalance s\<bar>
          + sum_list (map (\<lambda>(i, d). \<bar>mp_amountPaid d\<bar>) (monthlyPayments s))
          + sum_list (map (\<lambda>(i, d). \<bar>ep_amountPaid d\<bar>) (eventPayments s))
          + sum_list (map (\<lambda>(i, d). \<bar>ex_amount d\<bar>) (expenses s)) < 2 ^ 52)"

text \<open>The payment records of one (floor, month) key and of one (event, floor) key.\<close>

definition monthlyKeyRecords :: "Store \<Rightarrow> docid \<Rightarrow> month \<Rightarrow> (docid \<times> MonthlyPayment) list" where
  "monthlyKeyRecords s fl mo =
     filter (\<lambda>(i, p). mp_floorId p = fl \<and> mp_month p = mo) (monthlyPayments s)"

definition eventKeyRecords :: "Store \<Rightarrow> docid \<Rightarrow> docid \<Rightarrow> (docid \<times> EventPayment) list" where
  "eventKeyRecords s ev fl =
     filter (\<lambda>(i, p). ep_eventId p = ev \<and> ep_floorId p = fl) (eventPayments s)"

text \<open>The required amount of an event key: the \<open>costPerFloor\<close> of the open event.\<close>

definition requiredForEvent :: "Store \<Rightarrow> docid \<Rightarrow> jsnum" where
  "requiredForEvent s ev =
     (case map_of (filter (\<lambda>(i, e). status e = Open) (events s)) ev of
        None \<Rightarrow> Fin 0
      | Some e \<Rightarrow> costPerFloor e)"

text \<open>
  What an edit may change on a record: \<open>amountPaid\<close> and \<open>month\<close> of a monthly
  payment, \<open>amountPaid\<close> of an event payment; every other field is kept.
\<close>

definition onlyAmountAndMonth :: "MonthlyPayment \<Rightarrow> MonthlyPayment \<Rightarrow> bool" where
  "onlyAmountAndMonth d d' = (d' = d\<lparr>mp_amountPaid := mp_amountPaid d', mp_month := mp_month d'\<rparr>)"

definition onlyAmount :: "EventPayment \<Rightarrow> EventPayment \<Rightarrow> bool" where
  "onlyAmount d d' = (d' = d\<lparr>ep_amountPaid := ep_amountPaid d'\<rparr>)"

section \<open>Sequences of complete operations\<close>

text \<open>
  One administrator works in one dialogue at a time. A complete operation opens its
  dialogue (which reads the store), acts and finishes before the next one starts: a
  payment edit starts editing the listed row, changes fields and saves; a payment deletion
  marks the listed row and confirms at once. An operation that is rejected or fails leaves
  what the handler left.
\<close>

datatype operation =
    MonthlyPaymentOp "docid option" "month option" numinput timestamp docid
  | EventPaymentOp "docid option" "docid option" numinput timestamp docid
  | ExpenseOp expense_type "docid option" jsstring numinput paid_through timestamp docid
  | EditPaymentOp docid "edit_field list"
  | DeletePaymentOp docid
  | DeleteEventOp docid timestamp

fun applyOp :: "operation \<Rightarrow> Store \<Rightarrow> Store" where
  "applyOp (MonthlyPaymentOp fl mo amt now newId) s = snd (recordMonthlyPayment fl mo amt now newId s)"
| "applyOp (EventPaymentOp ev fl amt now newId) s = snd (recordEventPayment ev fl amt now newId s)"
| "applyOp (ExpenseOp ty ev descr amt via now newId) s =
     snd (createExpense ty ev descr amt via now newId s)"
| "applyOp (EditPaymentOp pid changes) s =
     (case find (\<lambda>p. p_id p = pid) (loadPayments s) of
        None \<Rightarrow> s
      | Some row \<Rightarrow>
         snd (snd (savePayment (fold handleEditChange changes (startEditing row (openPayments s))) s)))"
| "applyOp (DeletePaymentOp pid) s =
     (case find (\<lambda>p. p_id p = pid) (loadPayments s) of
        None \<Rightarrow> s
      | Some row \<Rightarrow> snd (snd (deletePayment (confirmDelete row (openPayments s)) s)))"
| "applyOp (DeleteEventOp eid now) s = snd (deleteEvent (Some eid) now s)"

text \<open>The id drawn by \<open>addDoc\<close> is not the id of a document of the collection.\<close>

fun opFresh :: "operation \<Rightarrow> Store \<Rightarrow> bool" where
  "opFresh (MonthlyPaymentOp fl mo amt now newId) s = (\<not> docExists newId (monthlyPayments s))"
| "opFresh (EventPaymentOp ev fl amt now newId) s = (\<not> docExists newId (eventPayments s))"
| "opFresh (ExpenseOp ty ev descr amt via now newId) s = (\<not> docExists newId (expenses s))"
| "opFresh _ s = True"

fun runOps :: "operation list \<Rightarrow> Store \<Rightarrow> Store" where
  "runOps [] s = s"
| "runOps (op # ops) s = runOps ops (applyOp op s)"

fun freshRun :: "operation list \<Rightarrow> Store \<Rightarrow> bool" where
  "freshRun [] s = True"
| "freshRun (op # ops) s = (opFresh op s \<and> freshRun ops (applyOp op s))"

definition wellFormed :: "Store \<Rightarrow> bool" where
  "wellFormed s = (uniqueIds (monthlyPayments s) \<and> uniqueIds (eventPayments s)
      \<and> uniqueIds (expenses s) \<and> balance s \<noteq> None)"

text \<open>Every store a run passes through is exact in the sense above.\<close>

fun exactRun :: "operation list \<Rightarrow> Store \<Rightarrow> bool" where
  "exactRun [] s = exactLedger s"
| "exactRun (op # ops) s = (exactLedger s \<and> exactRun ops (applyOp op s))"

text \<open>How far the stored balance is from the sum over the live records.\<close>

definition drift :: "Store \<Rightarrow> real" where
  "drift s = currentBalance s - ledgerTotal s"

section \<open>Example stores\<close>

text \<open>A fresh ledger: no records, balance 0, monthly due 500; and variants of it.\<close>

definition emptyStore :: Store where
  "emptyStore = \<lparr>floors = [], events = [], monthlyPayments = [], eventPayments = [],
     expenses = [], balance = Some \<lparr>totalBalance = 0, lastUpdated = 0\<rparr>,
     monthlyDuePayment = Some 500\<rparr>"


definition noBalance :: Store where
  "noBalance = emptyStore\<lparr>balance := None\<rparr>"

definition thousand :: Store where
  "thousand = emptyStore\<lparr>balance := Some \<lparr>totalBalance = 1000, lastUpdated = 0\<rparr>\<rparr>"

text \<open>The texts "Lift", "Repair" and "Parts".\<close>

definition liftText :: jsstring where
  "liftText = [76, 105, 102, 116]"

definition repairText :: jsstring where
  "repairText = [82, 101, 112, 97, 105, 114]"

definition partsText :: jsstring where
  "partsText = [80, 97, 114, 116, 115]"

definition liftEvent :: "real \<Rightarrow> jsnum \<Rightarrow> Event" where
  "liftEvent cost cpf = \<lparr>eventName_ar = liftText, description = repairText,
     totalCost = cost, costPerFloor = cpf, date = 0, status = Open\<rparr>"

definition evPay :: "docid \<Rightarrow> docid \<Rightarrow> real \<Rightarrow> real \<Rightarrow> timestamp \<Rightarrow> EventPayment" where
  "evPay ev fl amt rem t = \<lparr>ep_eventId = ev, ep_floorId = fl, ep_amountPaid = amt,
     ep_paymentDate = t, ep_remainingAmount = Fin rem, ep_isComplete = (rem \<le> 0)\<rparr>"

definition moPay :: "docid \<Rightarrow> month \<Rightarrow> real \<Rightarrow> real \<Rightarrow> timestamp \<Rightarrow> MonthlyPayment" where
  "moPay fl mo amt rem t = \<lparr>mp_floorId = fl, mp_month = mo, mp_amountPaid = amt,
     mp_paymentDate = t, mp_remainingAmount = rem, mp_isComplete = (rem \<le> 0)\<rparr>"

definition expense :: "docid option \<Rightarrow> real \<Rightarrow> timestamp \<Rightarrow> Expense" where
  "expense ev amt t = \<lparr>ex_type = (if ev = None then MonthlyExpense else EventExpense),
     ex_eventId = ev, ex_description = partsText, ex_amount = amt, ex_date = t,
     ex_paidThrough = Cash\<rparr>"

text \<open>
  Two events with payments and expenses, a monthly payment and a monthly expense; the
  balance is the payments (700) minus the expenses (220).
\<close>

definition twoEvents :: Store where
  "twoEvents = \<lparr>floors = [],
     events = [(1, liftEvent 1000 (Fin 500)), (2, liftEvent 600 (Fin 300))],
     monthlyPayments = [(10, moPay 0 ''2025-01'' 200 300 1)],
     eventPayments = [(20, evPay 1 0 250 250 2), (21, evPay 2 0 100 200 3), (22, evPay 1 1 150 350 4)],
     expenses = [(30, expense (Some 1) 150 5), (31, expense None 50 6), (32, expense (Some 2) 20 7)],
     balance = Some \<lparr>totalBalance = 480, lastUpdated = 7\<rparr>,
     monthlyDuePayment = Some 500\<rparr>"

text \<open>The fresh ledger after one and after two monthly payments of 200 for the same key.\<close>

definition oneMonthly :: Store where
  "oneMonthly = emptyStore\<lparr>monthlyPayments := [(10, moPay 0 ''2025-01'' 200 300 1)],
      balance := Some \<lparr>totalBalance = 200, lastUpdated = 1\<rparr>\<rparr>"

definition twoMonthly :: Store where
  "twoMonthly = emptyStore\<lparr>monthlyPayments :=
        [(10, moPay 0 ''2025-01'' 200 300 1), (11, moPay 0 ''2025-01'' 200 300 2)],
      balance := Some \<lparr>totalBalance = 400, lastUpdated = 2\<rparr>\<rparr>"

text \<open>An open event with 500 per floor and one payment of 400 for floor 0.\<close>

definition oneEventPayment :: Store where
  "oneEventPayment = emptyStore\<lparr>events := [(1, liftEvent 1000 (Fin 500))],
      eventPayments := [(20, evPay 1 0 400 100 1)],
      balance := Some \<lparr>totalBalance = 400, lastUpdated = 1\<rparr>\<rparr>"

text \<open>The same event with two payments of 200 for floor 0, the older one first in the read.\<close>

definition twoEventPayments :: Store where
  "twoEventPayments = emptyStore\<lparr>events := [(1, liftEvent 1000 (Fin 500))],
      eventPayments := [(20, evPay 1 0 200 300 1), (21, evPay 1 0 200 100 2)],
      balance := Some \<lparr>totalBalance = 400, lastUpdated = 2\<rparr>\<rparr>"

definition noBalanceEvent :: Store where
  "noBalanceEvent = noBalance\<lparr>events := [(1, liftEvent 1000 (Fin 500))]\<rparr>"

text \<open>
  The payments dialogue: the row of the monthly payment 10, the form after its amount is
  changed to 350, and the same with a deletion of that row confirmed before the edit.
\<close>

definition monthlyRow :: Payment where
  "monthlyRow = \<lparr>p_id = 10, p_type = MonthlyType, p_floorId = 0, p_amountPaid = 200,
     p_originalAmount = 200, p_paymentDate = 1, p_month = Some ''2025-01'', p_eventId = None\<rparr>"

definition editTo350 :: ManagePaymentsModal where
  "editTo350 = handleEditChange (AmountPaidField (Num 350))
                 (startEditing monthlyRow (openPayments twoEvents))"

definition edited350 :: Store where
  "edited350 = emptyStore\<lparr>monthlyPayments := [(10, moPay 0 ''2025-01'' 350 300 1)],
      balance := Some \<lparr>totalBalance = 350, lastUpdated = 1\<rparr>\<rparr>"

definition staleUi :: ManagePaymentsModal where
  "staleUi = handleEditChange (AmountPaidField (Num 350))
               (startEditing monthlyRow (confirmDelete monthlyRow (openPayments oneMonthly)))"

text \<open>
  A fresh ledger with one open event, and a run over it that uses every kind of operation.
\<close>

definition oneEvent :: Store where
  "oneEvent = emptyStore\<lparr>events := [(1, liftEvent 1000 (Fin 500))]\<rparr>"

definition sampleOps :: "operation list" where
  "sampleOps =
     [MonthlyPaymentOp (Some 0) (Some ''2025-01'') (Num 200) 1 10,
      EventPaymentOp (Some 1) (Some 0) (Num 400) 2 20,
      ExpenseOp EventExpense (Some 1) partsText (Num 150) Cash 3 30,
      EditPaymentOp 10 [AmountPaidField (Num 350)],
      DeletePaymentOp 10,
      DeleteEventOp 1 6,
      MonthlyPaymentOp (Some 1) (Some ''2025-02'') (Num 500) 7 11]"

section \<open>Facts about the store primitives\<close>

lemma trim_examples:
  "trim liftText = liftText" "trim repairText = repairText" "trim partsText = partsText"
  "liftText \<noteq> []" "repairText \<noteq> []" "partsText \<noteq> []"
  by (simp_all add: trim_def is_space_def liftText_def repairText_def partsText_def)

lemma set_addDoc: "set (addDoc i d c) = insert (i, d) (set c)"
  by (simp add: addDoc_def set_insort_key)

lemma sum_list_addDoc: "sum_list (map f (addDoc i d c)) = f (i, d) + (sum_list (map f c) :: real)"
  unfolding addDoc_def by (induction c) auto

lemma map_of_addDoc: "map_of (addDoc i d c) i = Some d"
  unfolding addDoc_def by (induction c) auto

lemma length_loadFloors: "length (loadFloors s) = length (floors s)"
  by (simp add: loadFloors_def)




lemma foldl_add: "foldl (\<lambda>acc (i, p). acc + f p) a xs = a + (sum_list (map (\<lambda>(i, p). f p) xs) :: real)"
  by (induction xs arbitrary: a) auto

lemma fold_deleteDoc: "fold deleteDoc ids c = filter (\<lambda>(j, d). j \<notin> set ids) c"
proof (induction ids arbitrary: c)
  case Nil
  then show ?case by simp
next
  case (Cons i ids)
  have "filter (\<lambda>(j, d). j \<notin> set ids) (deleteDoc i c) = filter (\<lambda>(j, d). j \<notin> set (i # ids)) c"
    unfolding deleteDoc_def filter_filter by (rule filter_cong) auto
  with Cons show ?case by simp
qed

lemma delete_matching:
  assumes "uniqueIds c"
  shows "fold deleteDoc (map fst (filter P c)) c = filter (\<lambda>x. \<not> P x) c"
  unfolding fold_deleteDoc
proof (rule filter_cong[OF refl])
  fix x assume x: "x \<in> set c"
  obtain j d where xd: "x = (j, d)" by (cases x)
  have "j \<in> set (map fst (filter P c)) \<longleftrightarrow> P (j, d)"
  proof
    assume "j \<in> set (map fst (filter P c))"
    then obtain d' where d': "(j, d') \<in> set c" "P (j, d')" by auto
    from assms d'(1) x xd have "d' = d"
      unfolding uniqueIds_def by (metis eq_key_imp_eq_value)
    with d' show "P (j, d)" by simp
  next
    assume "P (j, d)"
    with x xd show "j \<in> set (map fst (filter P c))" by force
  qed
  then show "(case x of (j, d) \<Rightarrow> j \<notin> set (map fst (filter P c))) = (\<not> P x)"
    using xd by simp
qed

lemma list_all2_updateDoc:
  assumes "\<And>d. R d (f d)"
  shows "list_all2 (\<lambda>(i, d) (i', d'). i' = i \<and> (if i = pid then R d d' else d' = d))
           c (updateDoc pid f c)"
  using assms by (induction c) (auto simp: updateDoc_def)

lemma list_all2_unchanged:
  assumes "\<And>d. R d d"
  shows "list_all2 (\<lambda>(i, d) (i', d'). i' = i \<and> (if i = pid then R d d' else d' = d)) c c"
  using assms by (induction c) auto

lemma pm_loadData_sel:
  "pm_selectedEvent (pm_loadData ev fl amt s) = ev"
  "pm_selectedFloor (pm_loadData ev fl amt s) = fl"
  "pm_paymentAmount (pm_loadData ev fl amt s) = amt"
  by (simp_all add: pm_loadData_def)

lemma find_filter: "find P xs = (case filter P xs of [] \<Rightarrow> None | x # _ \<Rightarrow> Some x)"
  by (induction xs) auto

lemma find_id_map_of:
  "(case find (\<lambda>(i, e). i = k) xs of None \<Rightarrow> d | Some (i, e) \<Rightarrow> f e)
     = (case map_of xs k of None \<Rightarrow> d | Some e \<Rightarrow> f e)"
  by (induction xs) auto

lemma getRequiredAmount_loaded:
  "getRequiredAmount (pm_loadData ev fl amt s) e f = requiredForEvent s e"
  by (simp add: getRequiredAmount_def pm_loadData_def requiredForEvent_def find_id_map_of)

lemma find_map_snd:
  "find P (map snd c) = map_option snd (find (\<lambda>(i, p). P p) c)"
  by (induction c) auto

lemma getRemainingAmount_loaded:
  "getRemainingAmount (pm_loadData ev fl amt s) e f =
     (case eventKeyRecords s e f of [] \<Rightarrow> requiredForEvent s e
      | (i, p) # _ \<Rightarrow> ep_remainingAmount p)"
proof -
  have "find (\<lambda>p. ep_eventId p = e \<and> ep_floorId p = f) (pm_existingPayments (pm_loadData ev fl amt s))
        = map_option snd (find (\<lambda>(i, p). ep_eventId p = e \<and> ep_floorId p = f) (eventPayments s))"
    by (simp add: pm_loadData_def find_map_snd)
  then show ?thesis
    unfolding getRemainingAmount_def Let_def getRequiredAmount_loaded eventKeyRecords_def
    by (simp add: find_filter split: list.splits)
qed

lemma js_sub_sub: "js_sub (js_sub r x) y = js_sub r (x + y)"
  by (cases r) auto

lemma sum_filter_addDoc:
  "sum_list (map g (filter P (addDoc i d c)))
     = (if P (i, d) then g (i, d) else 0) + (sum_list (map g (filter P c)) :: real)"
  unfolding addDoc_def by (induction c) auto

lemma uniqueIds_addDoc: "uniqueIds (addDoc i d c) = (\<not> docExists i c \<and> uniqueIds c)"
  unfolding uniqueIds_def addDoc_def docExists_def
  by (induction c) (auto simp: set_insort_key)

lemma uniqueIds_filter: "uniqueIds c \<Longrightarrow> uniqueIds (filter P c)"
  unfolding uniqueIds_def by (simp add: distinct_map_filter)

lemma uniqueIds_deleteDoc: "uniqueIds c \<Longrightarrow> uniqueIds (deleteDoc i c)"
  by (simp add: deleteDoc_def uniqueIds_filter)

lemma map_fst_updateDoc: "map fst (updateDoc i f c) = map fst c"
  by (induction c) (auto simp: updateDoc_def)

lemma uniqueIds_updateDoc: "uniqueIds (updateDoc i f c) = uniqueIds c"
  by (simp add: uniqueIds_def map_fst_updateDoc)

lemma sum_updateDoc:
  assumes "uniqueIds c" and "(i, d) \<in> set c"
  shows "sum_list (map (\<lambda>(j, x). g x) (updateDoc i f c))
           = sum_list (map (\<lambda>(j, x). g x) c) + g (f d) - (g d :: real)"
  using assms
proof (induction c)
  case Nil
  then show ?case by simp
next
  case (Cons a c)
  obtain j x where a: "a = (j, x)" by (cases a)
  show ?case
  proof (cases "j = i")
    case True
    with Cons.prems a have "x = d" and "i \<notin> fst ` set c"
      by (auto simp: uniqueIds_def rev_image_eqI)
    then have "updateDoc i f c = c"
      by (force simp: updateDoc_def intro!: map_idI)
    with True a \<open>x = d\<close> show ?thesis by (simp add: updateDoc_def)
  next
    case False
    with Cons a show ?thesis by (auto simp: updateDoc_def uniqueIds_def)
  qed
qed

lemma sum_deleteDoc:
  assumes "uniqueIds c" and "(i, d) \<in> set c"
  shows "sum_list (map (\<lambda>(j, x). g x) (deleteDoc i c))
           = sum_list (map (\<lambda>(j, x). g x) c) - (g d :: real)"
  using assms
proof (induction c)
  case Nil
  then show ?case by simp
next
  case (Cons a c)
  obtain j x where a: "a = (j, x)" by (cases a)
  show ?case
  proof (cases "j = i")
    case True
    with Cons.prems a have "x = d" and "i \<notin> fst ` set c"
      by (auto simp: uniqueIds_def rev_image_eqI)
    then have "deleteDoc i c = c"
      by (force simp: deleteDoc_def intro!: filter_True)
    with True a \<open>x = d\<close> show ?thesis by (simp add: deleteDoc_def)
  next
    case False
    with Cons a show ?thesis by (auto simp: deleteDoc_def uniqueIds_def)
  qed
qed

lemma sum_filter_split:
  "sum_list (map g c) = sum_list (map g (filter P c)) + (sum_list (map g (filter (\<lambda>x. \<not> P x) c)) :: real)"
  by (induction c) auto

lemma find_loadPayments:
  assumes "find (\<lambda>p. p_id p = pid) (loadPayments s) = Some row"
  shows "p_id row = pid
       \<and> (p_type row = MonthlyType
            \<and> (\<exists>d. (pid, d) \<in> set (monthlyPayments s) \<and> p_amountPaid row = mp_amountPaid d
                    \<and> p_originalAmount row = mp_amountPaid d)
          \<or> p_type row = EventType
            \<and> (\<exists>d. (pid, d) \<in> set (eventPayments s) \<and> p_amountPaid row = ep_amountPaid d
                    \<and> p_originalAmount row = ep_amountPaid d))"
proof -
  from assms have "row \<in> set (loadPayments s)" and id: "p_id row = pid"
    by (auto simp: find_Some_iff in_set_conv_nth)
  then show ?thesis
    by (auto simp: loadPayments_def Let_def)
qed

lemma save350:
  "snd (snd (savePayment editTo350 twoEvents))
       = twoEvents\<lparr>monthlyPayments := [(10, moPay 0 ''2025-01'' 350 300 1)],
                  balance := Some \<lparr>totalBalance = 630, lastUpdated = 7\<rparr>\<rparr>"
   "fst (savePayment editTo350 twoEvents) = None"
  by (simp_all add: savePayment_def editTo350_def startEditing_def openPayments_def Let_def
        monthlyRow_def currentBalance_def docExists_def updateDoc_def loadPayments_def
        twoEvents_def moPay_def evPay_def)

lemma sample_run:
  "runOps sampleOps oneEvent
     = emptyStore\<lparr>monthlyPayments := [(11, moPay 1 ''2025-02'' 500 0 7)],
         balance := Some \<lparr>totalBalance = 500, lastUpdated = 7\<rparr>\<rparr>"
  "freshRun sampleOps oneEvent"
  "exactRun sampleOps oneEvent"
  by (simp_all add: sampleOps_def oneEvent_def emptyStore_def recordMonthlyPayment_def
        monthly_handlePaymentSubmit_def loadFloorsAndConfig_def addDoc_def moPay_def
        recordEventPayment_def event_handlePaymentSubmit_def pm_loadData_def
        getRemainingAmount_def getRequiredAmount_def liftEvent_def
        createExpense_def xm_handleDetailsSubmit_def handleExpenseSubmit_def currentBalance_def
        trim_examples docExists_def
        savePayment_def deletePayment_def startEditing_def confirmDelete_def
        openPayments_def loadPayments_def Let_def updateDoc_def deleteDoc_def
        deleteEvent_def exactLedger_def evPay_def expense_def)

section \<open>The ledger under complete operations\<close>

text \<open>
  Every complete operation keeps the distance between the stored balance and the sum over
  the live records, provided document ids are unique and the balance document exists.
\<close>

lemma monthly_keeps:
  assumes "wellFormed s" and "\<not> docExists newId (monthlyPayments s)"
  shows "wellFormed (snd (recordMonthlyPayment fl mo amt now newId s))
       \<and> drift (snd (recordMonthlyPayment fl mo amt now newId s)) = drift s"
  using assms
  by (auto simp: recordMonthlyPayment_def monthly_handlePaymentSubmit_def Let_def wellFormed_def
        drift_def currentBalance_def ledgerTotal_def sum_list_addDoc uniqueIds_addDoc
        split: option.splits)

lemma event_keeps:
  assumes "wellFormed s" and "\<not> docExists newId (eventPayments s)"
  shows "wellFormed (snd (recordEventPayment ev fl amt now newId s))
       \<and> drift (snd (recordEventPayment ev fl amt now newId s)) = drift s"
  using assms
  by (auto simp: recordEventPayment_def event_handlePaymentSubmit_def Let_def wellFormed_def
        drift_def currentBalance_def ledgerTotal_def sum_list_addDoc uniqueIds_addDoc
        pm_loadData_sel split: option.splits)

lemma expense_keeps:
  assumes "wellFormed s" and "\<not> docExists newId (expenses s)"
  shows "wellFormed (snd (createExpense ty ev descr amt via now newId s))
       \<and> drift (snd (createExpense ty ev descr amt via now newId s)) = drift s"
  using assms
  by (auto simp: createExpense_def handleExpenseSubmit_def Let_def wellFormed_def
        drift_def currentBalance_def ledgerTotal_def sum_list_addDoc uniqueIds_addDoc
        split: option.splits)

lemma deleteEvent_keeps:
  assumes "wellFormed s"
  shows "wellFormed (snd (deleteEvent (Some eid) now s))
       \<and> drift (snd (deleteEvent (Some eid) now s)) = drift s"
proof -
  from assms obtain b where b: "balance s = Some b"
    and up: "uniqueIds (eventPayments s)" and ux: "uniqueIds (expenses s)"
    and um: "uniqueIds (monthlyPayments s)"
    by (auto simp: wellFormed_def)
  let ?P = "\<lambda>(i, p). ep_eventId p = eid"
  let ?X = "\<lambda>(i, x). ex_eventId x = Some eid"
  have p: "fold deleteDoc (map fst (filter ?P (eventPayments s))) (eventPayments s)
             = filter (\<lambda>x. \<not> ?P x) (eventPayments s)"
    by (rule delete_matching [OF up])
  have x: "fold deleteDoc (map fst (filter ?X (expenses s))) (expenses s)
             = filter (\<lambda>x. \<not> ?X x) (expenses s)"
    by (rule delete_matching [OF ux])
  have sp: "sum_list (map (\<lambda>(i, d). ep_amountPaid d) (eventPayments s))
      = sum_list (map (\<lambda>(i, d). ep_amountPaid d) (filter ?P (eventPayments s)))
        + sum_list (map (\<lambda>(i, d). ep_amountPaid d) (filter (\<lambda>x. \<not> ?P x) (eventPayments s)))"
    by (rule sum_filter_split)
  have sx: "sum_list (map (\<lambda>(i, d). ex_amount d) (expenses s))
      = sum_list (map (\<lambda>(i, d). ex_amount d) (filter ?X (expenses s)))
        + sum_list (map (\<lambda>(i, d). ex_amount d) (filter (\<lambda>x. \<not> ?X x) (expenses s)))"
    by (rule sum_filter_split)
  show ?thesis
    using b up ux um sp sx
    by (simp add: deleteEvent_def Let_def p x foldl_add wellFormed_def drift_def
          currentBalance_def ledgerTotal_def uniqueIds_filter)
qed

lemma fold_handleEditChange:
  "payments (fold handleEditChange changes ui) = payments ui"
  "editingPaymentId (fold handleEditChange changes ui) = editingPaymentId ui"
proof (induction changes arbitrary: ui)
  case Nil
  { case 1 show ?case by simp }
  { case 2 show ?case by simp }
next
  case (Cons c changes)
  { case 1 show ?case using Cons(1) by (cases c) simp_all }
  { case 2 show ?case using Cons(2) by (cases c) simp_all }
qed

lemma savePayment_keeps:
  assumes "wellFormed s" and "payments ui = loadPayments s"
  shows "wellFormed (snd (snd (savePayment ui s)))
       \<and> drift (snd (snd (savePayment ui s))) = drift s"
proof (cases "fst (savePayment ui s)")
  case (Some e)
  then have "snd (snd (savePayment ui s)) = s"
    by (auto simp: savePayment_def Let_def split: option.splits if_splits)
  with assms show ?thesis by simp
next
  case None
  show ?thesis
  proof (cases "editingPaymentId ui")
    case None
    then have "snd (snd (savePayment ui s)) = s" by (simp add: savePayment_def)
    with assms show ?thesis by simp
  next
    case (Some pid)
    from \<open>fst (savePayment ui s) = None\<close> Some obtain amount row b where
      amt: "parseFloat (pf_amountPaid (editFormData ui)) = Some amount" and
      row: "find (\<lambda>p. p_id p = pid) (payments ui) = Some row" and
      b: "balance s = Some b"
      by (auto simp: savePayment_def Let_def split: option.splits if_splits)
    from row assms(2) have found: "find (\<lambda>p. p_id p = pid) (loadPayments s) = Some row"
      by simp
    from assms(1) have um: "uniqueIds (monthlyPayments s)" and ue: "uniqueIds (eventPayments s)"
      and ux: "uniqueIds (expenses s)"
      by (auto simp: wellFormed_def)
    let ?nb = "totalBalance b + (amount - p_originalAmount row)"
    show ?thesis
    proof (cases "p_type row")
      case MonthlyType
      with find_loadPayments [OF found] obtain d where
        d: "(pid, d) \<in> set (monthlyPayments s)" "p_originalAmount row = mp_amountPaid d"
        by auto
      let ?f = "\<lambda>d. case pf_paymentMonth (editFormData ui) of
                     Some m \<Rightarrow> d\<lparr>mp_amountPaid := amount, mp_month := m\<rparr>
                   | None \<Rightarrow> d\<lparr>mp_amountPaid := amount\<rparr>"
      from d(1) have ex: "docExists pid (monthlyPayments s)"
        by (force simp: docExists_def)
      from Some amt row b MonthlyType ex \<open>fst (savePayment ui s) = None\<close>
      have s': "snd (snd (savePayment ui s))
                  = s\<lparr>monthlyPayments := updateDoc pid ?f (monthlyPayments s),
                       balance := Some (b\<lparr>totalBalance := ?nb\<rparr>)\<rparr>"
        by (auto simp: savePayment_def Let_def currentBalance_def split: if_splits)
      have "mp_amountPaid (?f d) = amount" by (simp split: option.splits)
      with sum_updateDoc [OF um d(1), of mp_amountPaid ?f]
      have "sum_list (map (\<lambda>(j, x). mp_amountPaid x) (updateDoc pid ?f (monthlyPayments s)))
              = sum_list (map (\<lambda>(j, x). mp_amountPaid x) (monthlyPayments s))
                + amount - mp_amountPaid d"
        by simp
      with b d(2) um ue ux show ?thesis
        unfolding s'
        by (simp add: wellFormed_def drift_def currentBalance_def ledgerTotal_def
              uniqueIds_updateDoc)
    next
      case EventType
      with find_loadPayments [OF found] obtain d where
        d: "(pid, d) \<in> set (eventPayments s)" "p_originalAmount row = ep_amountPaid d"
        by auto
      let ?f = "\<lambda>d. d\<lparr>ep_amountPaid := amount\<rparr>"
      from d(1) have ex: "docExists pid (eventPayments s)"
        by (force simp: docExists_def)
      from Some amt row b EventType ex \<open>fst (savePayment ui s) = None\<close>
      have s': "snd (snd (savePayment ui s))
                  = s\<lparr>eventPayments := updateDoc pid ?f (eventPayments s),
                       balance := Some (b\<lparr>totalBalance := ?nb\<rparr>)\<rparr>"
        by (auto simp: savePayment_def Let_def currentBalance_def split: if_splits)
      from sum_updateDoc [OF ue d(1), of ep_amountPaid ?f]
      have "sum_list (map (\<lambda>(j, x). ep_amountPaid x) (updateDoc pid ?f (eventPayments s)))
              = sum_list (map (\<lambda>(j, x). ep_amountPaid x) (eventPayments s))
                + amount - ep_amountPaid d"
        by simp
      with b d(2) um ue ux show ?thesis
        unfolding s'
        by (simp add: wellFormed_def drift_def currentBalance_def ledgerTotal_def
              uniqueIds_updateDoc)
    qed
  qed
qed

lemma deletePayment_keeps:
  assumes "wellFormed s" and "find (\<lambda>p. p_id p = pid) (loadPayments s) = Some row"
    and "deleteConfirmPayment ui = Some row"
  shows "wellFormed (snd (snd (deletePayment ui s)))
       \<and> drift (snd (snd (deletePayment ui s))) = drift s"
proof -
  from assms(1) obtain b where b: "balance s = Some b"
    and um: "uniqueIds (monthlyPayments s)" and ue: "uniqueIds (eventPayments s)"
    and ux: "uniqueIds (expenses s)"
    by (auto simp: wellFormed_def)
  from find_loadPayments [OF assms(2)] have id: "p_id row = pid" by simp
  show ?thesis
  proof (cases "p_type row")
    case MonthlyType
    with find_loadPayments [OF assms(2)] obtain d where
      d: "(pid, d) \<in> set (monthlyPayments s)" "p_amountPaid row = mp_amountPaid d"
      by auto
    from assms(3) b MonthlyType id
    have s': "snd (snd (deletePayment ui s))
                = s\<lparr>monthlyPayments := deleteDoc pid (monthlyPayments s),
                     balance := Some (b\<lparr>totalBalance := totalBalance b - p_amountPaid row\<rparr>)\<rparr>"
      by (simp add: deletePayment_def Let_def currentBalance_def)
    from sum_deleteDoc [OF um d(1), of mp_amountPaid] b d(2) um ue ux show ?thesis
      unfolding s'
      by (simp add: wellFormed_def drift_def currentBalance_def ledgerTotal_def
            uniqueIds_deleteDoc)
  next
    case EventType
    with find_loadPayments [OF assms(2)] obtain d where
      d: "(pid, d) \<in> set (eventPayments s)" "p_amountPaid row = ep_amountPaid d"
      by auto
    from assms(3) b EventType id
    have s': "snd (snd (deletePayment ui s))
                = s\<lparr>eventPayments := deleteDoc pid (eventPayments s),
                     balance := Some (b\<lparr>totalBalance := totalBalance b - p_amountPaid row\<rparr>)\<rparr>"
      by (simp add: deletePayment_def Let_def currentBalance_def)
    from sum_deleteDoc [OF ue d(1), of ep_amountPaid] b d(2) um ue ux show ?thesis
      unfolding s'
      by (simp add: wellFormed_def drift_def currentBalance_def ledgerTotal_def
            uniqueIds_deleteDoc)
  qed
qed

lemma applyOp_keeps:
  assumes "wellFormed s" and "opFresh op s"
  shows "wellFormed (applyOp op s) \<and> drift (applyOp op s) = drift s"
proof (cases op)
  case (MonthlyPaymentOp fl mo amt now newId)
  with assms show ?thesis by (simp add: monthly_keeps)
next
  case (EventPaymentOp ev fl amt now newId)
  with assms show ?thesis by (simp add: event_keeps)
next
  case (ExpenseOp ty ev descr amt via now newId)
  with assms show ?thesis by (simp add: expense_keeps)
next
  case (EditPaymentOp pid changes)
  show ?thesis
  proof (cases "find (\<lambda>p. p_id p = pid) (loadPayments s)")
    case None
    with EditPaymentOp assms show ?thesis by simp
  next
    case (Some row)
    have "payments (fold handleEditChange changes (startEditing row (openPayments s)))
            = loadPayments s"
      by (simp add: fold_handleEditChange startEditing_def openPayments_def)
    from savePayment_keeps [OF assms(1) this] EditPaymentOp Some show ?thesis by simp
  qed
next
  case (DeletePaymentOp pid)
  show ?thesis
  proof (cases "find (\<lambda>p. p_id p = pid) (loadPayments s)")
    case None
    with DeletePaymentOp assms show ?thesis by simp
  next
    case (Some row)
    have "deleteConfirmPayment (confirmDelete row (openPayments s)) = Some row"
      by (simp add: confirmDelete_def)
    from deletePayment_keeps [OF assms(1) Some this] DeletePaymentOp Some show ?thesis by simp
  qed
next
  case (DeleteEventOp eid now)
  with assms show ?thesis by (simp add: deleteEvent_keeps)
qed

text \<open>
  Hence every sequence of complete operations, over exact stores with unique document
  ids and a balance document, leaves the difference between the stored balance and the
  sum over the live records as it was; a ledger that starts with the two equal ends with
  them equal. (This is what the code does apart from the interleaving shown in the last
  section, where a deletion is confirmed on a row read before an edit.)
\<close>

lemma complete_operations_keep_ledger:
  assumes "wellFormed s" and "freshRun ops s" and "exactRun ops s"
  shows "currentBalance (runOps ops s) - ledgerTotal (runOps ops s)
           = currentBalance s - ledgerTotal s
       \<and> (currentBalance s = ledgerTotal s \<longrightarrow>
            currentBalance (runOps ops s) = ledgerTotal (runOps ops s))"
proof -
  have "wellFormed (runOps ops s) \<and> drift (runOps ops s) = drift s"
    using assms(1,2)
  proof (induction ops arbitrary: s)
    case Nil
    then show ?case by simp
  next
    case (Cons op ops)
    from Cons.prems have step: "wellFormed (applyOp op s)" "drift (applyOp op s) = drift s"
      using applyOp_keeps [of s op] by auto
    from Cons.prems have "freshRun ops (applyOp op s)" by simp
    from Cons.IH [OF step(1) this] step(2) show ?case by simp
  qed
  then show ?thesis by (simp add: drift_def)
qed

lemma complete_operations_sample:
  "wellFormed oneEvent \<and> freshRun sampleOps oneEvent \<and> exactRun sampleOps oneEvent
   \<and> currentBalance oneEvent = ledgerTotal oneEvent
   \<and> runOps sampleOps oneEvent
        = emptyStore\<lparr>monthlyPayments := [(11, moPay 1 ''2025-02'' 500 0 7)],
            balance := Some \<lparr>totalBalance = 500, lastUpdated = 7\<rparr>\<rparr>
   \<and> currentBalance (runOps sampleOps oneEvent) = 500
   \<and> ledgerTotal (runOps sampleOps oneEvent) = 500"
  using sample_run
  by (simp add: wellFormed_def uniqueIds_def oneEvent_def emptyStore_def currentBalance_def
        ledgerTotal_def moPay_def)

section \<open>Cost allocation\<close>

text \<open>
  Claim C10. At event creation, when the floors collection is empty, the cost-per-floor
  computation returns 0 instead of dividing (the division, as event edit performs it,
  would give \<open>Infinity\<close>), and the event created is stored with
  \<open>costPerFloor = 0\<close>.
\<close>

theorem zero_floors_cost_is_zero:
  assumes "floors s = []"
  shows "calculateCostPerFloor (loadFloors s) c = 0
       \<and> ceilPerFloor c (length (floors s)) = PosInf
       \<and> (createEvent name descr cost day newId s = (None, s') \<longrightarrow>
            (\<exists>ev. events s' = addDoc newId ev (events s)
                 \<and> parseFloat cost = Some (totalCost ev) \<and> costPerFloor ev = Fin 0))"
  using assms
  by (auto simp: calculateCostPerFloor_def length_loadFloors createEvent_def Let_def
        handleCreateEvent_def ceilPerFloor_def split: option.splits if_splits)

theorem zero_floors_cost_is_zero_witness:
  "floors emptyStore = []
   \<and> calculateCostPerFloor (loadFloors emptyStore) 1000 = 0
   \<and> createEvent liftText repairText (Num 1000) (Some 0) 1 emptyStore
       = (None, emptyStore\<lparr>events := [(1, \<lparr>eventName_ar = liftText, description = repairText,
            totalCost = 1000, costPerFloor = Fin 0, date = 0, status = Open\<rparr>)]\<rparr>)"
  using zero_floors_cost_is_zero [of emptyStore 1000 liftText repairText "Num 1000" "Some 0" 1]
  by (simp add: emptyStore_def createEvent_def nm_handleDetailsSubmit_def trim_examples
       handleCreateEvent_def calculateCostPerFloor_def loadFloors_def addDoc_def)




section \<open>Cascading deletion of an event\<close>

text \<open>
  Claim C4, as amended. When the balance document exists and the store is exact (whole
  amounts), deleting a maintenance event whose event-payment records sum to P and whose
  expense records with that \<open>eventId\<close> sum to X changes \<open>totalBalance\<close> by exactly
  \<open>-P + X\<close>, deletes exactly those payment and expense records together with the event
  record, and leaves every payment, expense and event record of other events or of monthly
  dues unchanged (document ids being unique).
\<close>

theorem deleteEvent_reverses_own_effects:
  assumes "uniqueIds (eventPayments s)" and "uniqueIds (expenses s)" and "balance s = Some b"
    and "exactLedger s"
  shows "\<exists>s'. deleteEvent (Some eid) now s = (None, s')
       \<and> currentBalance s' = totalBalance b
            - sum_list (map (\<lambda>(i, p). ep_amountPaid p)
                 (filter (\<lambda>(i, p). ep_eventId p = eid) (eventPayments s)))
            + sum_list (map (\<lambda>(i, x). ex_amount x)
                 (filter (\<lambda>(i, x). ex_eventId x = Some eid) (expenses s)))
       \<and> eventPayments s' = filter (\<lambda>(i, p). ep_eventId p \<noteq> eid) (eventPayments s)
       \<and> expenses s' = filter (\<lambda>(i, x). ex_eventId x \<noteq> Some eid) (expenses s)
       \<and> events s' = filter (\<lambda>(i, e). i \<noteq> eid) (events s)
       \<and> monthlyPayments s' = monthlyPayments s
       \<and> floors s' = floors s \<and> monthlyDuePayment s' = monthlyDuePayment s"
proof -
  have p: "fold deleteDoc (map fst (filter (\<lambda>(i, p). ep_eventId p = eid) (eventPayments s)))
             (eventPayments s) = filter (\<lambda>(i, p). ep_eventId p \<noteq> eid) (eventPayments s)"
    using delete_matching [OF assms(1), of "\<lambda>(i, p). ep_eventId p = eid"]
    by (simp add: case_prod_unfold)
  have x: "fold deleteDoc (map fst (filter (\<lambda>(i, x). ex_eventId x = Some eid) (expenses s)))
             (expenses s) = filter (\<lambda>(i, x). ex_eventId x \<noteq> Some eid) (expenses s)"
    using delete_matching [OF assms(2), of "\<lambda>(i, x). ex_eventId x = Some eid"]
    by (simp add: case_prod_unfold)
  show ?thesis
    using assms(3) p x
    by (simp add: deleteEvent_def Let_def foldl_add currentBalance_def deleteDoc_def)
qed

theorem deleteEvent_reverses_own_effects_witness:
  "uniqueIds (eventPayments twoEvents) \<and> uniqueIds (expenses twoEvents)
   \<and> balance twoEvents = Some \<lparr>totalBalance = 480, lastUpdated = 7\<rparr>
   \<and> exactLedger twoEvents
   \<and> deleteEvent (Some 1) 9 twoEvents =
       (None, twoEvents\<lparr>events := [(2, liftEvent 600 (Fin 300))],
                eventPayments := [(21, evPay 2 0 100 200 3)],
                expenses := [(31, expense None 50 6), (32, expense (Some 2) 20 7)],
                balance := Some \<lparr>totalBalance = 230, lastUpdated = 9\<rparr>\<rparr>)"
  using deleteEvent_reverses_own_effects [of twoEvents "\<lparr>totalBalance = 480, lastUpdated = 7\<rparr>" 1 9]
  by (simp add: twoEvents_def uniqueIds_def deleteEvent_def Let_def currentBalance_def
        deleteDoc_def evPay_def moPay_def expense_def exactLedger_def)

text \<open>
  The claim as stated fails when the balance document does not exist: the payments (400)
  and expenses (150) of the event and the event itself are deleted, the balance update
  then fails, and no balance has changed by \<open>-400 + 150\<close>.
\<close>

theorem deleteEvent_without_balance_counterexample:
  "balance (twoEvents\<lparr>balance := None\<rparr>) = None
   \<and> sum_list (map (\<lambda>(i, p). ep_amountPaid p)
        (filter (\<lambda>(i, p). ep_eventId p = 1) (eventPayments (twoEvents\<lparr>balance := None\<rparr>)))) = 400
   \<and> sum_list (map (\<lambda>(i, x). ex_amount x)
        (filter (\<lambda>(i, x). ex_eventId x = Some 1) (expenses (twoEvents\<lparr>balance := None\<rparr>)))) = 150
   \<and> deleteEvent (Some 1) 9 (twoEvents\<lparr>balance := None\<rparr>) =
       (Some StoreFailure,
        twoEvents\<lparr>events := [(2, liftEvent 600 (Fin 300))],
                eventPayments := [(21, evPay 2 0 100 200 3)],
                expenses := [(31, expense None 50 6), (32, expense (Some 2) 20 7)],
                balance := None\<rparr>)"
  by (simp add: twoEvents_def deleteEvent_def Let_def currentBalance_def
        deleteDoc_def evPay_def expense_def)

section \<open>Expenses\<close>

text \<open>
  Claim C6. Expense creation rejects, before any persistence and with no state changed,
  any expense whose amount exceeds the current \<open>totalBalance\<close>; an expense whose amount
  equals \<open>totalBalance\<close> is accepted and leaves \<open>totalBalance = 0\<close>; the ceiling
  applies to monthly and to event expenses.
\<close>

theorem expense_ceiling_is_balance:
  "(a > currentBalance s \<longrightarrow>
      (\<exists>e. createExpense ty ev descr (Num a) paidVia now newId s = (Some e, s)))
   \<and> (a = currentBalance s \<and> 0 < a \<and> trim descr \<noteq> [] \<and> (ty = EventExpense \<longrightarrow> ev \<noteq> None) \<longrightarrow>
      (\<exists>s' x. createExpense ty ev descr (Num a) paidVia now newId s = (None, s')
         \<and> currentBalance s' = 0
         \<and> expenses s' = addDoc newId x (expenses s) \<and> ex_amount x = a \<and> ex_type x = ty))"
proof -
  have reject: "a > currentBalance s \<longrightarrow>
      (\<exists>e. createExpense ty ev descr (Num a) paidVia now newId s = (Some e, s))"
    by (simp add: createExpense_def Let_def xm_handleDetailsSubmit_def)
  have accept: "a = currentBalance s \<and> 0 < a \<and> trim descr \<noteq> [] \<and> (ty = EventExpense \<longrightarrow> ev \<noteq> None) \<longrightarrow>
      (\<exists>s' x. createExpense ty ev descr (Num a) paidVia now newId s = (None, s')
         \<and> currentBalance s' = 0
         \<and> expenses s' = addDoc newId x (expenses s) \<and> ex_amount x = a \<and> ex_type x = ty)"
    by (auto simp: createExpense_def Let_def xm_handleDetailsSubmit_def handleExpenseSubmit_def
          currentBalance_def split: option.splits)
  from reject accept show ?thesis by blast
qed

theorem expense_ceiling_is_balance_witness:
  "currentBalance thousand = 1000
   \<and> createExpense MonthlyExpense None partsText (Num 1500) Cash 5 30 thousand
        = (Some ExceedsBalance, thousand)
   \<and> createExpense EventExpense (Some 1) partsText (Num 1500) Cash 5 30 thousand
        = (Some ExceedsBalance, thousand)
   \<and> createExpense MonthlyExpense None partsText (Num 1000) Cash 5 30 thousand
        = (None, thousand\<lparr>expenses := [(30, expense None 1000 5)],
                   balance := Some \<lparr>totalBalance = 0, lastUpdated = 5\<rparr>\<rparr>)
   \<and> createExpense EventExpense (Some 1) partsText (Num 1000) Cash 5 30 thousand
        = (None, thousand\<lparr>expenses := [(30, expense (Some 1) 1000 5)],
                   balance := Some \<lparr>totalBalance = 0, lastUpdated = 5\<rparr>\<rparr>)"
  using expense_ceiling_is_balance [where a = 1500 and s = thousand and ty = MonthlyExpense
      and ev = None and descr = partsText and paidVia = Cash and now = 5 and newId = 30]
    expense_ceiling_is_balance [where a = 1000 and s = thousand and ty = EventExpense
      and ev = "Some 1" and descr = partsText and paidVia = Cash and now = 5 and newId = 30]
  by (simp add: thousand_def emptyStore_def createExpense_def xm_handleDetailsSubmit_def
        handleExpenseSubmit_def currentBalance_def trim_examples addDoc_def expense_def)

section \<open>A missing balance document\<close>

text \<open>
  Claim C8, as amended. If the balance document does not exist when a payment (monthly or
  event) is created, every submission that passes the validation succeeds: the payment
  record is persisted, the balance update is skipped, no balance document is written and
  no failure is reported. An expense is rejected at validation with no record persisted,
  because the missing balance is read as zero.
\<close>

theorem missing_balance_skips_update:
  assumes "balance s = None"
  shows "(0 < a \<and> a \<le> loadFloorsAndConfig s \<longrightarrow>
            (\<exists>s' d. recordMonthlyPayment (Some fl) (Some mo) (Num a) now newId s = (None, s')
               \<and> s' = s\<lparr>monthlyPayments := addDoc newId d (monthlyPayments s)\<rparr>
               \<and> balance s' = None
               \<and> mp_floorId d = fl \<and> mp_month d = mo \<and> mp_amountPaid d = a))
       \<and> (0 < a \<and> \<not> js_exceeds a (getRemainingAmount (pm_loadData (Some ev) (Some fl) (Num a) s) ev fl) \<longrightarrow>
            (\<exists>s' d. recordEventPayment (Some ev) (Some fl) (Num a) now newId s = (None, s')
               \<and> s' = s\<lparr>eventPayments := addDoc newId d (eventPayments s)\<rparr>
               \<and> balance s' = None
               \<and> ep_eventId d = ev \<and> ep_floorId d = fl \<and> ep_amountPaid d = a))
       \<and> (\<exists>e. createExpense ty xev descr amt paidVia now newId s = (Some e, s))"
proof -
  have m: "0 < a \<and> a \<le> loadFloorsAndConfig s \<longrightarrow>
            (\<exists>s' d. recordMonthlyPayment (Some fl) (Some mo) (Num a) now newId s = (None, s')
               \<and> s' = s\<lparr>monthlyPayments := addDoc newId d (monthlyPayments s)\<rparr>
               \<and> balance s' = None
               \<and> mp_floorId d = fl \<and> mp_month d = mo \<and> mp_amountPaid d = a)"
    using assms
    by (auto simp: recordMonthlyPayment_def monthly_handlePaymentSubmit_def Let_def)
  have e: "0 < a \<and> \<not> js_exceeds a (getRemainingAmount (pm_loadData (Some ev) (Some fl) (Num a) s) ev fl) \<longrightarrow>
            (\<exists>s' d. recordEventPayment (Some ev) (Some fl) (Num a) now newId s = (None, s')
               \<and> s' = s\<lparr>eventPayments := addDoc newId d (eventPayments s)\<rparr>
               \<and> balance s' = None
               \<and> ep_eventId d = ev \<and> ep_floorId d = fl \<and> ep_amountPaid d = a)"
    using assms
    by (auto simp: recordEventPayment_def event_handlePaymentSubmit_def Let_def pm_loadData_sel)
  have x: "\<exists>e. createExpense ty xev descr amt paidVia now newId s = (Some e, s)"
    using assms
    by (cases amt)
       (auto simp: createExpense_def xm_handleDetailsSubmit_def Let_def currentBalance_def)
  from m e x show ?thesis by blast
qed

theorem missing_balance_skips_update_witness:
  "balance noBalanceEvent = None
   \<and> (0::real) < 200 \<and> 200 \<le> loadFloorsAndConfig noBalanceEvent
   \<and> \<not> js_exceeds 200 (getRemainingAmount (pm_loadData (Some 1) (Some 0) (Num 200) noBalanceEvent) 1 0)
   \<and> recordMonthlyPayment (Some 0) (Some ''2025-01'') (Num 200) 1 10 noBalanceEvent
        = (None, noBalanceEvent\<lparr>monthlyPayments := [(10, moPay 0 ''2025-01'' 200 300 1)]\<rparr>)
   \<and> recordEventPayment (Some 1) (Some 0) (Num 200) 1 10 noBalanceEvent
        = (None, noBalanceEvent\<lparr>eventPayments := [(10, evPay 1 0 200 300 1)]\<rparr>)
   \<and> createExpense MonthlyExpense (Some 1) partsText (Num 200) Cash 1 10 noBalanceEvent
        = (Some ExceedsBalance, noBalanceEvent)"
  using missing_balance_skips_update [where s = noBalanceEvent and fl = 0
      and mo = "''2025-01''" and a = 200 and amt = "Num 200" and now = 1 and newId = 10
      and ev = 1 and xev = "Some 1" and ty = MonthlyExpense and descr = partsText
      and paidVia = Cash]
  by (simp add: noBalanceEvent_def noBalance_def emptyStore_def recordMonthlyPayment_def
        loadFloorsAndConfig_def monthly_handlePaymentSubmit_def addDoc_def moPay_def
        recordEventPayment_def event_handlePaymentSubmit_def pm_loadData_def
        getRemainingAmount_def getRequiredAmount_def liftEvent_def evPay_def
        createExpense_def xm_handleDetailsSubmit_def currentBalance_def trim_examples)

text \<open>
  The claim as stated (the record persisted together with a balance document holding its
  amount, or nothing persisted and a failure) fails: the payment is stored, no error is
  raised and there is still no balance document.
\<close>

theorem missing_balance_counterexample:
  "balance noBalance = None
   \<and> recordMonthlyPayment (Some 0) (Some ''2025-01'') (Num 200) 1 10 noBalance
        = (None, noBalance\<lparr>monthlyPayments := [(10, moPay 0 ''2025-01'' 200 300 1)]\<rparr>)
   \<and> balance (noBalance\<lparr>monthlyPayments := [(10, moPay 0 ''2025-01'' 200 300 1)]\<rparr>) = None"
  by (simp add: noBalance_def emptyStore_def recordMonthlyPayment_def loadFloorsAndConfig_def
        monthly_handlePaymentSubmit_def addDoc_def moPay_def)

section \<open>Payment validation and the stored remaining amount\<close>

text \<open>
  Claim C2, as amended. Monthly payment creation rejects any submission whose amount
  exceeds the configured required amount (earlier payments of the (floor, month) key are
  not consulted); event payment creation, for an (event, floor) key with at most one
  payment record, rejects any submission whose amount exceeds the remaining due of the key
  (that record's \<open>remainingAmount\<close>, or the open event's \<open>costPerFloor\<close> when the
  key has no record). A rejection persists no record and leaves the balance unchanged; an
  accepted payment is stored with \<open>isComplete\<close> true exactly when nothing remains.
\<close>

theorem overpayment_check_as_coded:
  assumes "eventKeyRecords s ev f = [] \<and> due = requiredForEvent s ev
         \<or> (\<exists>i p. eventKeyRecords s ev f = [(i, p)] \<and> due = ep_remainingAmount p)"
  shows "(a > loadFloorsAndConfig s \<longrightarrow>
            (\<exists>e. recordMonthlyPayment fl mo (Num a) now newId s = (Some e, s)))
       \<and> (0 < a \<and> a \<le> loadFloorsAndConfig s \<longrightarrow>
            (\<exists>s' d. recordMonthlyPayment (Some f) (Some m) (Num a) now newId s = (None, s')
               \<and> monthlyPayments s' = addDoc newId d (monthlyPayments s)
               \<and> mp_amountPaid d = a \<and> mp_isComplete d = (a = loadFloorsAndConfig s)))
       \<and> (js_exceeds a due \<longrightarrow>
            (\<exists>e. recordEventPayment (Some ev) (Some f) (Num a) now newId s = (Some e, s)))
       \<and> (0 < a \<and> \<not> js_exceeds a due \<longrightarrow>
            (\<exists>s' d. recordEventPayment (Some ev) (Some f) (Num a) now newId s = (None, s')
               \<and> eventPayments s' = addDoc newId d (eventPayments s)
               \<and> ep_amountPaid d = a \<and> ep_isComplete d = js_le0 (js_sub due a)))"
proof -
  have m1: "a > loadFloorsAndConfig s \<longrightarrow>
            (\<exists>e. recordMonthlyPayment fl mo (Num a) now newId s = (Some e, s))"
    by (auto simp: recordMonthlyPayment_def monthly_handlePaymentSubmit_def
          split: option.splits)
  have m2: "0 < a \<and> a \<le> loadFloorsAndConfig s \<longrightarrow>
            (\<exists>s' d. recordMonthlyPayment (Some f) (Some m) (Num a) now newId s = (None, s')
               \<and> monthlyPayments s' = addDoc newId d (monthlyPayments s)
               \<and> mp_amountPaid d = a \<and> mp_isComplete d = (a = loadFloorsAndConfig s))"
    by (auto simp: recordMonthlyPayment_def monthly_handlePaymentSubmit_def Let_def
          split: option.splits)
  from assms have due: "getRemainingAmount (pm_loadData (Some ev) (Some f) (Num a) s) ev f = due"
    by (auto simp: getRemainingAmount_loaded)
  have e1: "js_exceeds a due \<longrightarrow>
            (\<exists>e. recordEventPayment (Some ev) (Some f) (Num a) now newId s = (Some e, s))"
    by (simp add: recordEventPayment_def event_handlePaymentSubmit_def pm_loadData_sel due Let_def)
  have e2: "0 < a \<and> \<not> js_exceeds a due \<longrightarrow>
            (\<exists>s' d. recordEventPayment (Some ev) (Some f) (Num a) now newId s = (None, s')
               \<and> eventPayments s' = addDoc newId d (eventPayments s)
               \<and> ep_amountPaid d = a \<and> ep_isComplete d = js_le0 (js_sub due a))"
    by (auto simp: recordEventPayment_def event_handlePaymentSubmit_def pm_loadData_sel due Let_def
          split: option.splits)
  from m1 m2 e1 e2 show ?thesis by blast
qed

theorem overpayment_check_as_coded_witness:
  "eventKeyRecords oneEventPayment 1 0 = [(20, evPay 1 0 400 100 1)]
   \<and> recordEventPayment (Some 1) (Some 0) (Num 150) 2 21 oneEventPayment
        = (Some ExceedsRequired, oneEventPayment)
   \<and> recordEventPayment (Some 1) (Some 0) (Num 100) 2 21 oneEventPayment
        = (None, oneEventPayment\<lparr>eventPayments := [(20, evPay 1 0 400 100 1), (21, evPay 1 0 100 0 2)],
               balance := Some \<lparr>totalBalance = 500, lastUpdated = 2\<rparr>\<rparr>)
   \<and> ep_isComplete (evPay 1 0 100 0 2)
   \<and> recordMonthlyPayment (Some 0) (Some ''2025-01'') (Num 600) 2 11 oneEventPayment
        = (Some ExceedsRequired, oneEventPayment)
   \<and> recordMonthlyPayment (Some 0) (Some ''2025-01'') (Num 500) 2 11 oneEventPayment
        = (None, oneEventPayment\<lparr>monthlyPayments := [(11, moPay 0 ''2025-01'' 500 0 2)],
               balance := Some \<lparr>totalBalance = 900, lastUpdated = 2\<rparr>\<rparr>)
   \<and> mp_isComplete (moPay 0 ''2025-01'' 500 0 2)"
  using overpayment_check_as_coded [where s = oneEventPayment and ev = 1 and f = 0
      and due = "Fin 100" and a = 150 and now = 2 and newId = 21]
    overpayment_check_as_coded [where s = oneEventPayment and ev = 1 and f = 0
      and due = "Fin 100" and a = 100 and now = 2 and newId = 21]
    overpayment_check_as_coded [where s = oneEventPayment and ev = 1 and f = 0
      and due = "Fin 100" and a = 600 and now = 2 and newId = 11
      and fl = "Some 0" and mo = "Some ''2025-01''"]
    overpayment_check_as_coded [where s = oneEventPayment and ev = 1 and f = 0
      and due = "Fin 100" and a = 500 and now = 2 and newId = 11 and m = "''2025-01''"]
  by (simp add: oneEventPayment_def emptyStore_def eventKeyRecords_def evPay_def liftEvent_def
        recordEventPayment_def event_handlePaymentSubmit_def pm_loadData_def
        getRemainingAmount_def getRequiredAmount_def addDoc_def
        recordMonthlyPayment_def monthly_handlePaymentSubmit_def loadFloorsAndConfig_def
        moPay_def)

text \<open>
  The claim as stated fails for monthly payments: with 500 required and two earlier
  payments of 200 for the key, a payment of 150 is accepted, and a payment of 100 is stored
  with \<open>isComplete = false\<close>.
\<close>

theorem overpayment_counterexample:
  "loadFloorsAndConfig twoMonthly = 500
   \<and> monthlyKeyRecords twoMonthly 0 ''2025-01''
        = [(10, moPay 0 ''2025-01'' 200 300 1), (11, moPay 0 ''2025-01'' 200 300 2)]
   \<and> recordMonthlyPayment (Some 0) (Some ''2025-01'') (Num 150) 3 12 twoMonthly
        = (None, twoMonthly\<lparr>monthlyPayments :=
              [(10, moPay 0 ''2025-01'' 200 300 1), (11, moPay 0 ''2025-01'' 200 300 2),
               (12, moPay 0 ''2025-01'' 150 350 3)],
            balance := Some \<lparr>totalBalance = 550, lastUpdated = 3\<rparr>\<rparr>)
   \<and> recordMonthlyPayment (Some 0) (Some ''2025-01'') (Num 100) 3 12 twoMonthly
        = (None, twoMonthly\<lparr>monthlyPayments :=
              [(10, moPay 0 ''2025-01'' 200 300 1), (11, moPay 0 ''2025-01'' 200 300 2),
               (12, moPay 0 ''2025-01'' 100 400 3)],
            balance := Some \<lparr>totalBalance = 500, lastUpdated = 3\<rparr>\<rparr>)
   \<and> \<not> mp_isComplete (moPay 0 ''2025-01'' 100 400 3)"
  by (simp add: twoMonthly_def emptyStore_def monthlyKeyRecords_def moPay_def
        recordMonthlyPayment_def monthly_handlePaymentSubmit_def loadFloorsAndConfig_def
        addDoc_def)

text \<open>
  Claim C3, as amended, for whole-number amounts below \<open>2^53\<close>. After a monthly payment
  is created, the \<open>remainingAmount\<close> of the new record is the required amount minus that
  record's own \<open>amountPaid\<close>, which is the required amount minus the sum over the key
  when the key had no record before. After an event payment is created for a key with at
  most one earlier record, that record's \<open>remainingAmount\<close> being the event's
  \<open>costPerFloor\<close> minus its \<open>amountPaid\<close>, the \<open>remainingAmount\<close> of the new
  record is \<open>costPerFloor\<close> minus the sum of \<open>amountPaid\<close> over all payment records
  of the key.
\<close>

theorem remaining_as_coded:
  assumes "length (eventKeyRecords s ev f) \<le> 1"
      and "\<forall>(i, p) \<in> set (eventKeyRecords s ev f).
              ep_remainingAmount p = js_sub (requiredForEvent s ev) (ep_amountPaid p)
              \<and> ep_amountPaid p \<in> \<int> \<and> 0 \<le> ep_amountPaid p"
      and "a \<in> \<int>" and "whole (loadFloorsAndConfig s)" and "wholeJs (requiredForEvent s ev)"
  shows "(recordMonthlyPayment (Some f) (Some m) (Num a) now newId s = (None, s') \<longrightarrow>
            (\<exists>d. monthlyPayments s' = addDoc newId d (monthlyPayments s)
               \<and> mp_amountPaid d = a
               \<and> mp_remainingAmount d = loadFloorsAndConfig s - a
               \<and> (monthlyKeyRecords s f m = [] \<longrightarrow>
                    mp_remainingAmount d = loadFloorsAndConfig s
                      - sum_list (map (\<lambda>(i, p). mp_amountPaid p) (monthlyKeyRecords s' f m)))))
       \<and> (recordEventPayment (Some ev) (Some f) (Num a) now newId s = (None, s'') \<longrightarrow>
            (\<exists>d. eventPayments s'' = addDoc newId d (eventPayments s)
               \<and> ep_amountPaid d = a
               \<and> ep_remainingAmount d = js_sub (requiredForEvent s ev)
                    (sum_list (map (\<lambda>(i, p). ep_amountPaid p) (eventKeyRecords s'' ev f)))))"
proof -
  have mo: "recordMonthlyPayment (Some f) (Some m) (Num a) now newId s = (None, s') \<longrightarrow>
            (\<exists>d. monthlyPayments s' = addDoc newId d (monthlyPayments s)
               \<and> mp_amountPaid d = a
               \<and> mp_remainingAmount d = loadFloorsAndConfig s - a
               \<and> (monthlyKeyRecords s f m = [] \<longrightarrow>
                    mp_remainingAmount d = loadFloorsAndConfig s
                      - sum_list (map (\<lambda>(i, p). mp_amountPaid p) (monthlyKeyRecords s' f m))))"
    by (auto simp: recordMonthlyPayment_def monthly_handlePaymentSubmit_def Let_def
          monthlyKeyRecords_def sum_filter_addDoc split: option.splits if_splits)
  have ev: "recordEventPayment (Some ev) (Some f) (Num a) now newId s = (None, s'') \<longrightarrow>
            (\<exists>d. eventPayments s'' = addDoc newId d (eventPayments s)
               \<and> ep_amountPaid d = a
               \<and> ep_remainingAmount d = js_sub (requiredForEvent s ev)
                    (sum_list (map (\<lambda>(i, p). ep_amountPaid p) (eventKeyRecords s'' ev f))))"
  proof
    assume ok: "recordEventPayment (Some ev) (Some f) (Num a) now newId s = (None, s'')"
    let ?ui = "pm_loadData (Some ev) (Some f) (Num a) s"
    let ?d = "\<lparr>ep_eventId = ev, ep_floorId = f, ep_amountPaid = a, ep_paymentDate = now,
               ep_remainingAmount = js_sub (getRemainingAmount ?ui ev f) a,
               ep_isComplete = js_le0 (js_sub (getRemainingAmount ?ui ev f) a)\<rparr>"
    from ok have s'': "eventPayments s'' = addDoc newId ?d (eventPayments s)"
      by (auto simp: recordEventPayment_def event_handlePaymentSubmit_def pm_loadData_sel Let_def
            split: option.splits if_splits)
    have sum: "sum_list (map (\<lambda>(i, p). ep_amountPaid p) (eventKeyRecords s'' ev f))
                 = a + sum_list (map (\<lambda>(i, p). ep_amountPaid p) (eventKeyRecords s ev f))"
      by (simp add: eventKeyRecords_def s'' sum_filter_addDoc)
    have "js_sub (getRemainingAmount ?ui ev f) a
            = js_sub (requiredForEvent s ev)
                (a + sum_list (map (\<lambda>(i, p). ep_amountPaid p) (eventKeyRecords s ev f)))"
    proof (cases "eventKeyRecords s ev f")
      case Nil
      then show ?thesis by (simp add: getRemainingAmount_loaded)
    next
      case (Cons r rs)
      with assms(1) have rs: "rs = []" by simp
      obtain i p where r: "r = (i, p)" by (cases r)
      from assms(2) Cons r
      have "ep_remainingAmount p = js_sub (requiredForEvent s ev) (ep_amountPaid p)" by auto
      with Cons rs r show ?thesis
        by (simp add: getRemainingAmount_loaded js_sub_sub add.commute)
    qed
    with s'' sum show "\<exists>d. eventPayments s'' = addDoc newId d (eventPayments s)
               \<and> ep_amountPaid d = a
               \<and> ep_remainingAmount d = js_sub (requiredForEvent s ev)
                    (sum_list (map (\<lambda>(i, p). ep_amountPaid p) (eventKeyRecords s'' ev f)))"
      by (intro exI[of _ ?d]) simp
  qed
  from mo ev show ?thesis by blast
qed

theorem remaining_as_coded_witness:
  "eventKeyRecords oneEventPayment 1 0 = [(20, evPay 1 0 400 100 1)]
   \<and> ep_remainingAmount (evPay 1 0 400 100 1) = js_sub (requiredForEvent oneEventPayment 1) 400
   \<and> (400::real) \<in> \<int> \<and> (200::real) \<in> \<int> \<and> (100::real) \<in> \<int>
   \<and> whole (loadFloorsAndConfig oneEventPayment) \<and> wholeJs (requiredForEvent oneEventPayment 1)
   \<and> recordMonthlyPayment (Some 0) (Some ''2025-01'') (Num 200) 2 11 oneEventPayment
        = (None, oneEventPayment\<lparr>monthlyPayments := [(11, moPay 0 ''2025-01'' 200 300 2)],
               balance := Some \<lparr>totalBalance = 600, lastUpdated = 2\<rparr>\<rparr>)
   \<and> recordEventPayment (Some 1) (Some 0) (Num 100) 2 21 oneEventPayment
        = (None, oneEventPayment\<lparr>eventPayments := [(20, evPay 1 0 400 100 1), (21, evPay 1 0 100 0 2)],
               balance := Some \<lparr>totalBalance = 500, lastUpdated = 2\<rparr>\<rparr>)
   \<and> ep_remainingAmount (evPay 1 0 100 0 2) = Fin (500 - (400 + 100))"
  using remaining_as_coded [where s = oneEventPayment and ev = 1 and f = 0
      and m = "''2025-01''" and a = 200 and now = 2 and newId = 11
      and s' = "oneEventPayment\<lparr>monthlyPayments := [(11, moPay 0 ''2025-01'' 200 300 2)],
               balance := Some \<lparr>totalBalance = 600, lastUpdated = 2\<rparr>\<rparr>"]
    remaining_as_coded [where s = oneEventPayment and ev = 1 and f = 0
      and a = 100 and now = 2 and newId = 21
      and s'' = "oneEventPayment\<lparr>eventPayments := [(20, evPay 1 0 400 100 1), (21, evPay 1 0 100 0 2)],
               balance := Some \<lparr>totalBalance = 500, lastUpdated = 2\<rparr>\<rparr>"]
  by (simp add: oneEventPayment_def emptyStore_def eventKeyRecords_def evPay_def liftEvent_def
        requiredForEvent_def recordEventPayment_def event_handlePaymentSubmit_def pm_loadData_def
        getRemainingAmount_def getRequiredAmount_def addDoc_def
        recordMonthlyPayment_def monthly_handlePaymentSubmit_def loadFloorsAndConfig_def
        moPay_def whole_def)

text \<open>
  The claim as stated fails for monthly payments: after two payments of 200 against 500
  the latest record stores 300, while 500 minus the payments of the key is 100.
\<close>

theorem remaining_counterexample:
  "recordMonthlyPayment (Some 0) (Some ''2025-01'') (Num 200) 1 10 emptyStore = (None, oneMonthly)
   \<and> recordMonthlyPayment (Some 0) (Some ''2025-01'') (Num 200) 2 11 oneMonthly = (None, twoMonthly)
   \<and> monthlyKeyRecords twoMonthly 0 ''2025-01''
        = [(10, moPay 0 ''2025-01'' 200 300 1), (11, moPay 0 ''2025-01'' 200 300 2)]
   \<and> mp_remainingAmount (moPay 0 ''2025-01'' 200 300 2) = 300
   \<and> loadFloorsAndConfig twoMonthly
        - sum_list (map (\<lambda>(i, p). mp_amountPaid p) (monthlyKeyRecords twoMonthly 0 ''2025-01'')) = 100"
  by (simp add: twoMonthly_def oneMonthly_def emptyStore_def monthlyKeyRecords_def moPay_def
        recordMonthlyPayment_def monthly_handlePaymentSubmit_def loadFloorsAndConfig_def
        addDoc_def)

text \<open>
  Left out of both amended claims: an event key with several records. The handler takes
  the first record the read returns for the key, which need not be the latest one: here
  100 remains, the record found says 300, and a payment of 150 is accepted.
\<close>

lemma third_event_payment_reads_first_record:
  "getRemainingAmount (pm_loadData (Some 1) (Some 0) (Num 150) twoEventPayments) 1 0 = Fin 300
   \<and> recordEventPayment (Some 1) (Some 0) (Num 150) 3 22 twoEventPayments
        = (None, twoEventPayments\<lparr>eventPayments :=
              [(20, evPay 1 0 200 300 1), (21, evPay 1 0 200 100 2), (22, evPay 1 0 150 150 3)],
            balance := Some \<lparr>totalBalance = 550, lastUpdated = 3\<rparr>\<rparr>)"
  by (simp add: twoEventPayments_def emptyStore_def evPay_def liftEvent_def
        recordEventPayment_def event_handlePaymentSubmit_def pm_loadData_def
        getRemainingAmount_def getRequiredAmount_def addDoc_def)

section \<open>Editing and deleting a payment\<close>

text \<open>
  Claim C9. A payment edit changes, on the edited record, only \<open>amountPaid\<close> (and
  \<open>month\<close> of a monthly payment), and \<open>totalBalance\<close> on the balance document; the
  record's \<open>remainingAmount\<close>, \<open>isComplete\<close>, \<open>paymentDate\<close>, \<open>floorId\<close> and
  \<open>eventId\<close>, and every other payment record, stay as they were.
\<close>

theorem savePayment_frame:
  assumes "savePayment ui s = (None, ui', s')" and "editingPaymentId ui = Some pid"
  shows "list_all2 (\<lambda>(i, d) (i', d'). i' = i \<and> (if i = pid then onlyAmountAndMonth d d' else d' = d))
           (monthlyPayments s) (monthlyPayments s')
       \<and> list_all2 (\<lambda>(i, d) (i', d'). i' = i \<and> (if i = pid then onlyAmount d d' else d' = d))
           (eventPayments s) (eventPayments s')
       \<and> (\<exists>b. balance s = Some b \<and> balance s' = Some (b\<lparr>totalBalance := currentBalance s'\<rparr>))
       \<and> events s' = events s \<and> expenses s' = expenses s \<and> floors s' = floors s
       \<and> monthlyDuePayment s' = monthlyDuePayment s"
proof -
  from assms obtain amount p b where
    amt: "parseFloat (pf_amountPaid (editFormData ui)) = Some amount" and
    p: "find (\<lambda>p. p_id p = pid) (payments ui) = Some p" and
    b: "balance s = Some b"
    by (auto simp: savePayment_def Let_def split: option.splits if_splits)
  let ?nb = "totalBalance b + (amount - p_originalAmount p)"
  show ?thesis
  proof (cases "p_type p")
    case MonthlyType
    let ?f = "\<lambda>d. case pf_paymentMonth (editFormData ui) of
                     Some m \<Rightarrow> d\<lparr>mp_amountPaid := amount, mp_month := m\<rparr>
                   | None \<Rightarrow> d\<lparr>mp_amountPaid := amount\<rparr>"
    from assms amt p b MonthlyType
    have s': "s' = s\<lparr>monthlyPayments := updateDoc pid ?f (monthlyPayments s),
                    balance := Some (b\<lparr>totalBalance := ?nb\<rparr>)\<rparr>"
      by (auto simp: savePayment_def Let_def currentBalance_def split: if_splits)
    have "\<And>d. onlyAmountAndMonth d (?f d)"
      by (simp add: onlyAmountAndMonth_def split: option.splits)
    then have m: "list_all2 (\<lambda>(i, d) (i', d'). i' = i \<and> (if i = pid then onlyAmountAndMonth d d' else d' = d))
           (monthlyPayments s) (updateDoc pid ?f (monthlyPayments s))"
      by (rule list_all2_updateDoc)
    have e: "list_all2 (\<lambda>(i, d) (i', d'). i' = i \<and> (if i = pid then onlyAmount d d' else d' = d))
           (eventPayments s) (eventPayments s)"
      by (rule list_all2_unchanged) (simp add: onlyAmount_def)
    from m e b show ?thesis
      unfolding s' by (simp add: currentBalance_def)
  next
    case EventType
    let ?f = "\<lambda>d. d\<lparr>ep_amountPaid := amount\<rparr>"
    from assms amt p b EventType
    have s': "s' = s\<lparr>eventPayments := updateDoc pid ?f (eventPayments s),
                    balance := Some (b\<lparr>totalBalance := ?nb\<rparr>)\<rparr>"
      by (auto simp: savePayment_def Let_def currentBalance_def split: if_splits)
    have "\<And>d. onlyAmount d (?f d)"
      by (simp add: onlyAmount_def)
    then have e: "list_all2 (\<lambda>(i, d) (i', d'). i' = i \<and> (if i = pid then onlyAmount d d' else d' = d))
           (eventPayments s) (updateDoc pid ?f (eventPayments s))"
      by (rule list_all2_updateDoc)
    have m: "list_all2 (\<lambda>(i, d) (i', d'). i' = i \<and> (if i = pid then onlyAmountAndMonth d d' else d' = d))
           (monthlyPayments s) (monthlyPayments s)"
      by (rule list_all2_unchanged) (simp add: onlyAmountAndMonth_def)
    from m e b show ?thesis
      unfolding s' by (simp add: currentBalance_def)
  qed
qed

theorem savePayment_frame_witness:
  "editingPaymentId editTo350 = Some 10
   \<and> fst (savePayment editTo350 twoEvents) = None
   \<and> snd (snd (savePayment editTo350 twoEvents))
       = twoEvents\<lparr>monthlyPayments := [(10, moPay 0 ''2025-01'' 350 300 1)],
                  balance := Some \<lparr>totalBalance = 630, lastUpdated = 7\<rparr>\<rparr>
   \<and> onlyAmountAndMonth (moPay 0 ''2025-01'' 200 300 1) (moPay 0 ''2025-01'' 350 300 1)"
  using savePayment_frame [where ui = editTo350 and s = twoEvents and pid = 10
      and ui' = "fst (snd (savePayment editTo350 twoEvents))"
      and s' = "snd (snd (savePayment editTo350 twoEvents))"] save350
  by (simp add: editTo350_def startEditing_def monthlyRow_def onlyAmountAndMonth_def moPay_def)

text \<open>
  When the dialogue's row is the one read from the store as it is now (and the stores are
  exact), an edit changes the balance by the new amount minus the persisted one, and a
  deletion by minus the persisted amount.
\<close>

lemma fresh_edit_applies_delta:
  assumes "payments ui = loadPayments s" and "editingPaymentId ui = Some pid"
    and "savePayment ui s = (None, ui', s')" and "exactLedger s" and "exactLedger s'"
  shows "\<exists>new. parseFloat (pf_amountPaid (editFormData ui)) = Some new
       \<and> ((\<exists>d. (pid, d) \<in> set (monthlyPayments s)
               \<and> currentBalance s' - currentBalance s = new - mp_amountPaid d)
          \<or> (\<exists>d. (pid, d) \<in> set (eventPayments s)
               \<and> currentBalance s' - currentBalance s = new - ep_amountPaid d))"
proof -
  from assms(2,3) obtain new row b where
    new: "parseFloat (pf_amountPaid (editFormData ui)) = Some new" and
    row: "find (\<lambda>p. p_id p = pid) (payments ui) = Some row" and
    b: "balance s = Some b"
    by (auto simp: savePayment_def Let_def split: option.splits if_splits)
  from assms(2,3) new row b
  have bal: "currentBalance s' = currentBalance s + (new - p_originalAmount row)"
    by (auto simp: savePayment_def Let_def currentBalance_def
          split: if_splits payment_type.splits)
  from row assms(1) have "find (\<lambda>p. p_id p = pid) (loadPayments s) = Some row" by simp
  from find_loadPayments [OF this] bal new show ?thesis by auto
qed

lemma fresh_delete_removes_credit:
  assumes "find (\<lambda>p. p_id p = pid) (loadPayments s) = Some row"
    and "deleteConfirmPayment ui = Some row" and "deletePayment ui s = (None, ui', s')"
    and "exactLedger s" and "exactLedger s'"
  shows "(\<exists>d. (pid, d) \<in> set (monthlyPayments s)
            \<and> currentBalance s' - currentBalance s = - mp_amountPaid d)
       \<or> (\<exists>d. (pid, d) \<in> set (eventPayments s)
            \<and> currentBalance s' - currentBalance s = - ep_amountPaid d)"
proof -
  from assms(2,3) obtain b where b: "balance s = Some b"
    by (auto simp: deletePayment_def Let_def split: option.splits)
  from assms(2,3) b
  have bal: "currentBalance s' = currentBalance s - p_amountPaid row"
    by (auto simp: deletePayment_def Let_def currentBalance_def split: payment_type.splits)
  from find_loadPayments [OF assms(1)] bal show ?thesis by auto
qed

text \<open>
  Claim C5 (an edit changes the balance by new minus old, a deletion by minus old, old
  being the persisted amount) at a failing input. The row of payment 10 (200) is marked
  for deletion, the payment is then edited to 350 and saved, and the pending deletion is
  confirmed: \<open>savePayment\<close> reloads the list but leaves \<open>deleteConfirmPayment\<close>
  as it was read before the edit, so the deletion takes 200 off the balance although the
  persisted amount is 350.
\<close>

theorem stale_confirmation_deletes_old_amount:
  "payments (openPayments oneMonthly) = [monthlyRow]
   \<and> fst (savePayment staleUi oneMonthly) = None
   \<and> snd (snd (savePayment staleUi oneMonthly)) = edited350
   \<and> deleteConfirmPayment (fst (snd (savePayment staleUi oneMonthly))) = Some monthlyRow
   \<and> fst (deletePayment (fst (snd (savePayment staleUi oneMonthly))) edited350) = None
   \<and> snd (snd (deletePayment (fst (snd (savePayment staleUi oneMonthly))) edited350))
        = edited350\<lparr>monthlyPayments := [],
                    balance := Some \<lparr>totalBalance = 350 - 200, lastUpdated = 1\<rparr>\<rparr>"
  by (simp add: savePayment_def deletePayment_def staleUi_def startEditing_def confirmDelete_def
        openPayments_def loadPayments_def Let_def monthlyRow_def currentBalance_def
        docExists_def updateDoc_def deleteDoc_def oneMonthly_def edited350_def emptyStore_def
        moPay_def)

text \<open>
  Claim C1 (after every sequence of operations the stored balance is the sum over the
  live payment records minus the sum over the live expense records) at a failing input,
  the same interleaving seen from the ledger. Starting from the fresh ledger, a monthly
  payment of 200 is created; its row is marked for deletion, the payment is edited to 350
  and saved, and the pending deletion is confirmed. No payment or expense record is left,
  and the stored balance is 150.
\<close>

theorem ledger_drifts_after_stale_delete:
  "recordMonthlyPayment (Some 0) (Some ''2025-01'') (Num 200) 1 10 emptyStore = (None, oneMonthly)
   \<and> currentBalance oneMonthly = ledgerTotal oneMonthly
   \<and> savePayment staleUi oneMonthly
        = (None, staleUi\<lparr>editingPaymentId := None, payments := loadPayments edited350\<rparr>, edited350)
   \<and> currentBalance edited350 = ledgerTotal edited350
   \<and> ledgerTotal (snd (snd (deletePayment
          (staleUi\<lparr>editingPaymentId := None, payments := loadPayments edited350\<rparr>) edited350))) = 0
   \<and> currentBalance (snd (snd (deletePayment
          (staleUi\<lparr>editingPaymentId := None, payments := loadPayments edited350\<rparr>) edited350))) = 150"
  by (simp add: savePayment_def deletePayment_def staleUi_def startEditing_def confirmDelete_def
        openPayments_def loadPayments_def Let_def monthlyRow_def currentBalance_def
        docExists_def updateDoc_def deleteDoc_def oneMonthly_def edited350_def emptyStore_def
        moPay_def ledgerTotal_def recordMonthlyPayment_def monthly_handlePaymentSubmit_def
        loadFloorsAndConfig_def addDoc_def)

end
